theory Spec2Isabelle
  imports Main
begin

section \<open>Riichi scoreboard: the scoring and round-progression engine of App.tsx\<close>

text \<open>
  The component state of \<^verbatim>\<open>App.tsx\<close> is embedded as records, the settlement handlers
  as functions from the previous state to a return value and a next state, and the
  values read from local storage as a datatype of parsed JSON.

  Numbers. The engine only ever adds, subtracts and multiplies integers far below
  \<open>2^53\<close>, where the doubles of JavaScript are exact, so points, deltas and counters
  are \<open>int\<close>. The two places where a double is not an integer are written out:
  \<^verbatim>\<open>parseInt\<close> may return \<^verbatim>\<open>NaN\<close> or an infinity, and \<^verbatim>\<open>%\<close> is the truncated
  remainder, which keeps the sign of the dividend.

  Strings are sequences of UTF-16 code units, as in JavaScript.
\<close>

subsection \<open>Strings\<close>

type_synonym jsstring = "nat list"

definition u16 :: "string \<Rightarrow> jsstring" where
  \<comment> \<open>An ASCII literal as code units.\<close>
  "u16 s = map of_char s"

definition is_ws :: "nat \<Rightarrow> bool" where
  \<comment> \<open>WhiteSpace and LineTerminator of ECMAScript: what \<^verbatim>\<open>trim\<close> and \<^verbatim>\<open>parseInt\<close> skip.\<close>
  "is_ws c \<longleftrightarrow>
     c \<in> {0x9, 0xA, 0xB, 0xC, 0xD, 0x20, 0xA0, 0x1680, 0x2028, 0x2029, 0x202F, 0x205F,
          0x3000, 0xFEFF}
     \<or> (0x2000 \<le> c \<and> c \<le> 0x200A)"

definition trim :: "jsstring \<Rightarrow> jsstring" where
  \<comment> \<open>\<^verbatim>\<open>String.prototype.trim\<close>\<close>
  "trim s = rev (dropWhile is_ws (rev (dropWhile is_ws s)))"

definition PLAYER_LABELS :: "jsstring list" where
  \<comment> \<open>The four seat labels: East, South, West and North wind seat.\<close>
  "PLAYER_LABELS =
     [[0x4E1C, 0x98CE, 0x5BB6], [0x5357, 0x98CE, 0x5BB6],
      [0x897F, 0x98CE, 0x5BB6], [0x5317, 0x98CE, 0x5BB6]]"

definition lookup :: "'a list \<Rightarrow> int \<Rightarrow> 'a option" where
  \<comment> \<open>\<^verbatim>\<open>xs[i]\<close>: \<open>None\<close> is \<^verbatim>\<open>undefined\<close>, the value of an index outside the array.\<close>
  "lookup xs i = (if 0 \<le> i \<and> i < int (length xs) then Some (xs ! nat i) else None)"

subsection \<open>parseInt\<close>

datatype jsnum = NaN | PosInf | NegInf | Num int

definition is_digit :: "nat \<Rightarrow> bool" where
  "is_digit c \<longleftrightarrow> 48 \<le> c \<and> c \<le> 57"

definition digits_value :: "nat list \<Rightarrow> int" where
  "digits_value ds = foldl (\<lambda>acc c. acc * 10 + (int c - 48)) 0 ds"

definition DOUBLE_OVERFLOW :: int where
  \<comment> \<open>The least magnitude that rounds to an infinity: the largest double plus half an ulp.\<close>
  "DOUBLE_OVERFLOW = 2 ^ 1024 - 2 ^ 970"

definition parseInt10 :: "jsstring \<Rightarrow> jsnum" where
  \<comment> \<open>\<^verbatim>\<open>parseInt(s, 10)\<close>: leading white space is skipped, one sign is read, then the
      longest run of decimal digits; no digit gives \<^verbatim>\<open>NaN\<close>. \<open>Num n\<close> stands for the
      double nearest to \<open>n\<close>: every later use of it (comparison with a constant below
      \<open>2^53\<close>, or a product that is compared with 2000) gives the same result on \<open>n\<close>,
      since rounding to nearest is monotone and leaves integers below \<open>2^53\<close> alone.\<close>
  "parseInt10 s =
     (let t = dropWhile is_ws s;
          neg = (t \<noteq> [] \<and> hd t = 45);
          u = (if t \<noteq> [] \<and> (hd t = 45 \<or> hd t = 43) then tl t else t);
          z = takeWhile is_digit u
      in if z = [] then NaN
         else let m = digits_value z
              in if DOUBLE_OVERFLOW \<le> m then (if neg then NegInf else PosInf)
                 else Num (if neg then - m else m))"

definition or_zero :: "jsstring \<Rightarrow> jsstring" where
  \<comment> \<open>\<^verbatim>\<open>input || "0"\<close>: the empty string is the only falsy string.\<close>
  "or_zero s = (if s = [] then u16 ''0'' else s)"

definition positive_finite :: "jsnum \<Rightarrow> int option" where
  \<comment> \<open>The negation of \<^verbatim>\<open>!Number.isFinite(x) || x <= 0\<close>, with the value when it passes.\<close>
  "positive_finite x = (case x of Num n \<Rightarrow> (if n \<le> 0 then None else Some n) | _ \<Rightarrow> None)"

subsection \<open>Score table\<close>

definition roundUpToHundred :: "int \<Rightarrow> int" where
  \<comment> \<open>\<^verbatim>\<open>Math.ceil(value / 100) * 100\<close> on an integer.\<close>
  "roundUpToHundred v = (- ((- v) div 100)) * 100"

definition calcBasePoints :: "int \<Rightarrow> int \<Rightarrow> int" where
  \<comment> \<open>Called with \<open>han > 0\<close> only, so \<^verbatim>\<open>Math.pow(2, han + 2)\<close> is a power with a
      natural exponent.\<close>
  "calcBasePoints han fu =
     (if han \<ge> 13 then 8000
      else if han \<ge> 11 then 6000
      else if han \<ge> 8 then 4000
      else if han \<ge> 6 then 3000
      else if han \<ge> 5 then 2000
      else let raw = fu * 2 ^ nat (han + 2)
           in if (han = 4 \<and> fu = 30) \<or> (han = 3 \<and> fu = 60) then 2000
              else if raw > 2000 then 2000
              else raw)"

definition basePoints_table :: "int \<Rightarrow> int \<Rightarrow> int" where
  \<comment> \<open>The tiered table as the specification words it, to compare with the code.\<close>
  "basePoints_table han fu =
     (if han \<ge> 13 then 8000
      else if han \<ge> 11 then 6000
      else if han \<ge> 8 then 4000
      else if han \<ge> 6 then 3000
      else if han \<ge> 5 then 2000
      else if (han = 4 \<and> fu = 30) \<or> (han = 3 \<and> fu = 60) then 2000
      else min 2000 (fu * 2 ^ nat (han + 2)))"

subsection \<open>Data model\<close>

datatype SettlementType = tsumo | ron | draw

text \<open>
  The strings a handler renders for its history entry and undo summary: the entry id
  (\<^verbatim>\<open>Date.now()\<close> and the history length), the round label, the description
  (\<^verbatim>\<open>Intl.NumberFormat\<close>), the timestamp (\<^verbatim>\<open>toLocaleString\<close>) and the summary. They
  depend on the clock and the locale, and are an input of the model.
\<close>

record Rendered =
  r_id :: jsstring
  r_roundLabel :: jsstring
  r_description :: jsstring
  r_timestamp :: jsstring
  r_summary :: jsstring

record HistoryEntry =
  entry_id :: jsstring
  entry_type :: SettlementType
  entry_roundLabel :: jsstring
  entry_dealerLabel :: "jsstring option"
  entry_riichiCount :: int
  entry_description :: jsstring
  entry_timestamp :: jsstring
  entry_playerNames :: "jsstring list"
  entry_riichiPlayers :: "jsstring option list"
  entry_deltas :: "int list"

record CoreSnapshot =
  points :: "int list"
  kyotaku :: int
  honba :: int
  kyokuIndex :: int
  dealerIndex :: int
  history :: "HistoryEntry list"
  names :: "jsstring list"

record LastSettlementMeta =
  meta_type :: SettlementType
  meta_summary :: jsstring
  meta_timestamp :: jsstring

text \<open>\<^verbatim>\<open>GameState\<close> has the seven fields of \<^verbatim>\<open>CoreSnapshot\<close> and the undo bookkeeping.\<close>

record GameState = CoreSnapshot +
  lastSettlementBefore :: "CoreSnapshot option"
  lastSettlementAfter :: "CoreSnapshot option"
  lastSettlementMeta :: "LastSettlementMeta option"
  isInUndo :: bool

record SettlementPreview =
  deltas :: "int list"
  winnerIndex :: "int option"
  kyotakuBefore :: int
  kyotakuAfter :: int
  kyotakuIncome :: int
  riichiIncome :: int

definition createDefaultNames :: "jsstring list" where
  "createDefaultNames = PLAYER_LABELS"

definition createInitialGameState :: GameState where
  "createInitialGameState =
     \<lparr>points = [25000, 25000, 25000, 25000], kyotaku = 0, honba = 0, kyokuIndex = 0,
      dealerIndex = 0, history = [], names = createDefaultNames,
      lastSettlementBefore = None, lastSettlementAfter = None,
      lastSettlementMeta = None, isInUndo = False\<rparr>"

definition createCoreSnapshotFromState :: "GameState \<Rightarrow> CoreSnapshot" where
  "createCoreSnapshotFromState source =
     \<lparr>points = points source, kyotaku = kyotaku source, honba = honba source,
      kyokuIndex = kyokuIndex source, dealerIndex = dealerIndex source,
      history = history source, names = names source\<rparr>"

subsection \<open>Arrays\<close>

definition indices :: "'a list \<Rightarrow> int list" where
  \<comment> \<open>The indices \<^verbatim>\<open>forEach\<close> and \<^verbatim>\<open>map\<close> pass to their callback.\<close>
  "indices xs = map int [0..<length xs]"

definition add_at :: "int list \<Rightarrow> int \<Rightarrow> int \<Rightarrow> int list" where
  \<comment> \<open>\<^verbatim>\<open>deltas[i] += v\<close>. The delta array has four entries and every index the
      engine writes is a seat, 0 to 3, when the flag arrays have four entries and the
      selected seats are seats; an index outside the array (where JavaScript would
      create a \<^verbatim>\<open>NaN\<close> entry) leaves the four entries as they are.\<close>
  "add_at ds i v = (if 0 \<le> i \<and> i < int (length ds) then ds[nat i := ds ! nat i + v] else ds)"

fun findIndex :: "('a \<Rightarrow> bool) \<Rightarrow> 'a list \<Rightarrow> int" where
  \<comment> \<open>\<^verbatim>\<open>Array.prototype.findIndex\<close>: the first index whose element satisfies the
      predicate, \<open>-1\<close> when there is none.\<close>
  "findIndex P [] = - 1"
| "findIndex P (x # xs) =
     (if P x then 0 else (let r = findIndex P xs in if r < 0 then - 1 else r + 1))"

definition applyDeltas :: "int list \<Rightarrow> int list \<Rightarrow> int list" where
  \<comment> \<open>\<^verbatim>\<open>points.map((p, idx) => p + (deltas[idx] ?? 0))\<close>\<close>
  "applyDeltas pts ds =
     map (\<lambda>(p, idx). p + (case lookup ds idx of Some d \<Rightarrow> d | None \<Rightarrow> 0))
         (zip pts (indices pts))"

definition name_or_label :: "jsstring list \<Rightarrow> int \<Rightarrow> jsstring option" where
  \<comment> \<open>\<^verbatim>\<open>names[i] ?? PLAYER_LABELS[i]\<close>\<close>
  "name_or_label ns i = (case lookup ns i of Some n \<Rightarrow> Some n | None \<Rightarrow> lookup PLAYER_LABELS i)"

definition ensureSeatIndex :: "int \<Rightarrow> int" where
  \<comment> \<open>\<^verbatim>\<open>value % 4\<close>: the remainder of the division that truncates towards zero.\<close>
  "ensureSeatIndex v = (if 0 \<le> v then v mod 4 else - ((- v) mod 4))"

definition rem8 :: "int \<Rightarrow> int" where
  \<comment> \<open>\<^verbatim>\<open>value % 8\<close>\<close>
  "rem8 v = (if 0 \<le> v then v mod 8 else - ((- v) mod 8))"

definition parseHanFu :: "jsstring \<Rightarrow> jsstring \<Rightarrow> (int \<times> int) option" where
  \<comment> \<open>The two \<^verbatim>\<open>parseInt(input || "0", 10)\<close> and the check that rejects a value that
      is not finite or not positive; \<open>None\<close> is the rejection.\<close>
  "parseHanFu hanInput fuInput =
     (case (positive_finite (parseInt10 (or_zero hanInput)),
            positive_finite (parseInt10 (or_zero fuInput))) of
        (Some han, Some fu) \<Rightarrow> Some (han, fu)
      | _ \<Rightarrow> None)"

subsection \<open>Settlement previews\<close>

definition computeTsumoPreview ::
  "GameState \<Rightarrow> int option \<Rightarrow> jsstring \<Rightarrow> jsstring \<Rightarrow> bool list \<Rightarrow> SettlementPreview option"
where
  "computeTsumoPreview state winner_opt hanInput fuInput riichiFlags =
     (case winner_opt of
        None \<Rightarrow> None
      | Some winner \<Rightarrow>
         (case parseHanFu hanInput fuInput of
            None \<Rightarrow> None
          | Some (han, fu) \<Rightarrow>
             (let basePoints = calcBasePoints han fu;
                  (deltas1, riichiIndices) =
                    foldl (\<lambda>(ds, ris) (v, idx).
                             if v then (add_at ds idx (- 1000), ris @ [idx]) else (ds, ris))
                          ([0, 0, 0, 0], []) (zip riichiFlags (indices riichiFlags));
                  riichiCount = int (length riichiIndices);
                  riichiIncome' = riichiCount * 1000;
                  kyotakuPoints = kyotaku state * 1000;
                  winnerIsDealer = (winner = dealerIndex state);
                  (deltas2, totalBaseFromOthers, totalHonbaFromOthers) =
                    (if winnerIsDealer then
                       foldl (\<lambda>(ds, tb, th) idx.
                                if idx = winner then (ds, tb, th)
                                else (let rawBase = 2 * basePoints;
                                          basePay = roundUpToHundred rawBase;
                                          honbaPay = honba state * 100;
                                          payment = basePay + honbaPay
                                      in (add_at ds idx (- payment), tb + basePay, th + honbaPay)))
                             (deltas1, 0, 0) (indices (points state))
                     else
                       foldl (\<lambda>(ds, tb, th) idx.
                                if idx = winner then (ds, tb, th)
                                else (let isDealer = (idx = dealerIndex state);
                                          rawBase = basePoints * (if isDealer then 2 else 1);
                                          basePay = roundUpToHundred rawBase;
                                          honbaPay = honba state * 100;
                                          payment = basePay + honbaPay
                                      in (add_at ds idx (- payment), tb + basePay, th + honbaPay)))
                             (deltas1, 0, 0) (indices (points state)));
                  deltas3 = add_at deltas2 winner (totalBaseFromOthers + totalHonbaFromOthers);
                  deltas4 = add_at deltas3 winner (kyotakuPoints + riichiIncome')
              in Some \<lparr>deltas = deltas4, winnerIndex = Some winner,
                       kyotakuBefore = kyotaku state, kyotakuAfter = 0,
                       kyotakuIncome = kyotakuPoints, riichiIncome = riichiIncome'\<rparr>)))"

definition computeRonPreview ::
  "GameState \<Rightarrow> int option \<Rightarrow> int option \<Rightarrow> jsstring \<Rightarrow> jsstring \<Rightarrow> bool list
     \<Rightarrow> SettlementPreview option"
where
  "computeRonPreview state winner_opt loser_opt hanInput fuInput riichiFlags =
     (case (winner_opt, loser_opt) of
        (Some winner, Some loser) \<Rightarrow>
          (if winner = loser then None
           else
            (case parseHanFu hanInput fuInput of
               None \<Rightarrow> None
             | Some (han, fu) \<Rightarrow>
                (let basePoints = calcBasePoints han fu;
                     (deltas1, riichiIndices) =
                       foldl (\<lambda>(ds, ris) (v, idx).
                                if v then (add_at ds idx (- 1000), ris @ [idx]) else (ds, ris))
                             ([0, 0, 0, 0], []) (zip riichiFlags (indices riichiFlags));
                     riichiCount = int (length riichiIndices);
                     riichiIncome' = riichiCount * 1000;
                     kyotakuPoints = kyotaku state * 1000;
                     winnerIsDealer = (winner = dealerIndex state);
                     multiplier = (if winnerIsDealer then 6 else 4);
                     rawBase = multiplier * basePoints;
                     basePay = roundUpToHundred rawBase;
                     honbaPay = honba state * 300;
                     payment = basePay + honbaPay;
                     deltas2 = add_at deltas1 loser (- payment);
                     deltas3 = add_at deltas2 winner (payment + kyotakuPoints + riichiIncome')
                 in Some \<lparr>deltas = deltas3, winnerIndex = Some winner,
                          kyotakuBefore = kyotaku state, kyotakuAfter = 0,
                          kyotakuIncome = kyotakuPoints, riichiIncome = riichiIncome'\<rparr>)))
      | _ \<Rightarrow> None)"

definition computeDrawPreview :: "GameState \<Rightarrow> bool list \<Rightarrow> bool list \<Rightarrow> SettlementPreview" where
  "computeDrawPreview state tenpaiFlags riichiFlags =
     (let (deltas1, riichiIndices) =
            foldl (\<lambda>(ds, ris) (v, idx).
                     if v then (add_at ds idx (- 1000), ris @ [idx]) else (ds, ris))
                  ([0, 0, 0, 0], []) (zip riichiFlags (indices riichiFlags));
          riichiCount = int (length riichiIndices);
          riichiIncome' = riichiCount * 1000;
          tenpaiCount = length (filter (\<lambda>v. v) tenpaiFlags);
          deltas2 =
            (if tenpaiCount = 1 then
               (let tenpaiIndex = findIndex (\<lambda>v. v) tenpaiFlags
                in foldl (\<lambda>ds idx.
                            if idx = tenpaiIndex then ds
                            else add_at (add_at ds idx (- 1000)) tenpaiIndex 1000)
                         deltas1 (indices (points state)))
             else if tenpaiCount = 2 then
               (let tenpaiIndices =
                      map fst (filter (\<lambda>(idx, v). v) (zip (indices tenpaiFlags) tenpaiFlags));
                    notTenpaiIndices =
                      map fst (filter (\<lambda>(idx, v). \<not> v) (zip (indices tenpaiFlags) tenpaiFlags));
                    ds' = foldl (\<lambda>ds i. add_at ds i (- 1500)) deltas1 notTenpaiIndices
                in foldl (\<lambda>ds i. add_at ds i 1500) ds' tenpaiIndices)
             else if tenpaiCount = 3 then
               (let notIndex = findIndex (\<lambda>v. \<not> v) tenpaiFlags
                in foldl (\<lambda>ds idx.
                            if idx = notIndex then ds
                            else add_at (add_at ds notIndex (- 1000)) idx 1000)
                         deltas1 (indices (points state)))
             else deltas1);
          newKyotaku = kyotaku state + riichiCount
      in \<lparr>deltas = deltas2, winnerIndex = None,
          kyotakuBefore = kyotaku state, kyotakuAfter = newKyotaku,
          kyotakuIncome = 0, riichiIncome = riichiIncome'\<rparr>)"

subsection \<open>Confirmation handlers, undo and redo\<close>

text \<open>
  A handler returns what the source function returns, and the state after it: the
  result of the updater it passes to \<^verbatim>\<open>setState\<close>, or the previous state when it
  returns before calling \<^verbatim>\<open>setState\<close>. The updater works on \<open>prev\<close>;
  \<^verbatim>\<open>buildHistoryEntry\<close> reads the state of the render that created the handler,
  the argument \<open>state\<close>.
\<close>

definition buildHistoryEntry ::
  "GameState \<Rightarrow> Rendered \<Rightarrow> SettlementType \<Rightarrow> int \<Rightarrow> jsstring option list \<Rightarrow> int list
     \<Rightarrow> HistoryEntry"
where
  "buildHistoryEntry state txt ty riichiCount riichiPlayers ds =
     \<lparr>entry_id = r_id txt, entry_type = ty, entry_roundLabel = r_roundLabel txt,
      entry_dealerLabel = name_or_label (names state) (dealerIndex state),
      entry_riichiCount = riichiCount, entry_description = r_description txt,
      entry_timestamp = r_timestamp txt, entry_playerNames = names state,
      entry_riichiPlayers = riichiPlayers, entry_deltas = ds\<rparr>"



definition handleTsumoConfirm ::
  "GameState \<Rightarrow> Rendered \<Rightarrow> int option \<Rightarrow> jsstring \<Rightarrow> jsstring \<Rightarrow> bool list \<Rightarrow> GameState
     \<Rightarrow> bool \<times> GameState"
where
  "handleTsumoConfirm state txt tsumoWinner tsumoHan tsumoFu tsumoRiichi prev =
     (case tsumoWinner of
        None \<Rightarrow> (False, prev)
      | Some winner \<Rightarrow>
         (case parseHanFu tsumoHan tsumoFu of
            None \<Rightarrow> (False, prev)
          | Some (han, fu) \<Rightarrow>
             (let beforeSnapshot = createCoreSnapshotFromState prev;
                  basePoints = calcBasePoints han fu;
                  (deltas1, riichiIndices) =
                    foldl (\<lambda>(ds, ris) (v, idx).
                             if v then (add_at ds idx (- 1000), ris @ [idx]) else (ds, ris))
                          ([0, 0, 0, 0], []) (zip tsumoRiichi (indices tsumoRiichi));
                  riichiCount = int (length riichiIndices);
                  riichiIncome' = riichiCount * 1000;
                  kyotakuPoints = kyotaku prev * 1000;
                  riichiPlayers = map (\<lambda>i. name_or_label (names prev) i) riichiIndices;
                  winnerIsDealer = (winner = dealerIndex prev);
                  (deltas2, totalBaseFromOthers, totalHonbaFromOthers) =
                    (if winnerIsDealer then
                       foldl (\<lambda>(ds, tb, th) idx.
                                if idx = winner then (ds, tb, th)
                                else (let rawBase = 2 * basePoints;
                                          basePay = roundUpToHundred rawBase;
                                          honbaPay = honba prev * 100;
                                          payment = basePay + honbaPay
                                      in (add_at ds idx (- payment), tb + basePay, th + honbaPay)))
                             (deltas1, 0, 0) (indices (points prev))
                     else
                       foldl (\<lambda>(ds, tb, th) idx.
                                if idx = winner then (ds, tb, th)
                                else (let isDealer = (idx = dealerIndex prev);
                                          rawBase = basePoints * (if isDealer then 2 else 1);
                                          basePay = roundUpToHundred rawBase;
                                          honbaPay = honba prev * 100;
                                          payment = basePay + honbaPay
                                      in (add_at ds idx (- payment), tb + basePay, th + honbaPay)))
                             (deltas1, 0, 0) (indices (points prev)));
                  deltas3 = add_at deltas2 winner (totalBaseFromOthers + totalHonbaFromOthers);
                  deltas4 = add_at deltas3 winner (kyotakuPoints + riichiIncome');
                  newPoints = applyDeltas (points prev) deltas4;
                  entry = buildHistoryEntry state txt tsumo riichiCount riichiPlayers deltas4;
                  winnerIsDealerNow = (winner = dealerIndex prev);
                  (nextDealer, nextHonba, nextKyoku) =
                    (if winnerIsDealerNow
                     then (dealerIndex prev, honba prev + 1, kyokuIndex prev)
                     else (ensureSeatIndex (dealerIndex prev + 1), 0,
                           rem8 (kyokuIndex prev + 1)));
                  afterSnapshot =
                    \<lparr>points = newPoints, kyotaku = 0, honba = nextHonba,
                     kyokuIndex = nextKyoku, dealerIndex = nextDealer,
                     history = entry # history prev, names = names prev\<rparr>;
                  meta = \<lparr>meta_type = tsumo, meta_summary = r_summary txt,
                          meta_timestamp = entry_timestamp entry\<rparr>
              in (True,
                  \<lparr>points = points afterSnapshot, kyotaku = kyotaku afterSnapshot,
                   honba = honba afterSnapshot, kyokuIndex = kyokuIndex afterSnapshot,
                   dealerIndex = dealerIndex afterSnapshot,
                   history = history afterSnapshot, names = names afterSnapshot,
                   lastSettlementBefore = Some beforeSnapshot,
                   lastSettlementAfter = Some afterSnapshot,
                   lastSettlementMeta = Some meta, isInUndo = False\<rparr>))))"

definition handleRonConfirm ::
  "GameState \<Rightarrow> Rendered \<Rightarrow> int option \<Rightarrow> int option \<Rightarrow> jsstring \<Rightarrow> jsstring \<Rightarrow> bool list
     \<Rightarrow> GameState \<Rightarrow> bool \<times> GameState"
where
  "handleRonConfirm state txt ronWinner ronLoser ronHan ronFu ronRiichi prev =
     (case (ronWinner, ronLoser) of
        (Some winner, Some loser) \<Rightarrow>
          (if winner = loser then (False, prev)
           else
            (case parseHanFu ronHan ronFu of
               None \<Rightarrow> (False, prev)
             | Some (han, fu) \<Rightarrow>
                (let beforeSnapshot = createCoreSnapshotFromState prev;
                     basePoints = calcBasePoints han fu;
                     (deltas1, riichiIndices) =
                       foldl (\<lambda>(ds, ris) (v, idx).
                                if v then (add_at ds idx (- 1000), ris @ [idx]) else (ds, ris))
                             ([0, 0, 0, 0], []) (zip ronRiichi (indices ronRiichi));
                     riichiCount = int (length riichiIndices);
                     riichiIncome' = riichiCount * 1000;
                     kyotakuPoints = kyotaku prev * 1000;
                     riichiPlayers = map (\<lambda>i. name_or_label (names prev) i) riichiIndices;
                     winnerIsDealer = (winner = dealerIndex prev);
                     multiplier = (if winnerIsDealer then 6 else 4);
                     rawBase = multiplier * basePoints;
                     basePay = roundUpToHundred rawBase;
                     honbaPay = honba prev * 300;
                     payment = basePay + honbaPay;
                     deltas2 = add_at deltas1 loser (- payment);
                     deltas3 = add_at deltas2 winner (payment + kyotakuPoints + riichiIncome');
                     newPoints = applyDeltas (points prev) deltas3;
                     entry = buildHistoryEntry state txt ron riichiCount riichiPlayers deltas3;
                     winnerIsDealerNow = (winner = dealerIndex prev);
                     (nextDealer, nextHonba, nextKyoku) =
                       (if winnerIsDealerNow
                        then (dealerIndex prev, honba prev + 1, kyokuIndex prev)
                        else (ensureSeatIndex (dealerIndex prev + 1), 0,
                              rem8 (kyokuIndex prev + 1)));
                     afterSnapshot =
                       \<lparr>points = newPoints, kyotaku = 0, honba = nextHonba,
                        kyokuIndex = nextKyoku, dealerIndex = nextDealer,
                        history = entry # history prev, names = names prev\<rparr>;
                     meta = \<lparr>meta_type = ron, meta_summary = r_summary txt,
                             meta_timestamp = entry_timestamp entry\<rparr>
                 in (True,
                     \<lparr>points = points afterSnapshot, kyotaku = kyotaku afterSnapshot,
                      honba = honba afterSnapshot, kyokuIndex = kyokuIndex afterSnapshot,
                      dealerIndex = dealerIndex afterSnapshot,
                      history = history afterSnapshot, names = names afterSnapshot,
                      lastSettlementBefore = Some beforeSnapshot,
                      lastSettlementAfter = Some afterSnapshot,
                      lastSettlementMeta = Some meta, isInUndo = False\<rparr>))))
      | _ \<Rightarrow> (False, prev))"

definition handleDrawConfirm ::
  "GameState \<Rightarrow> Rendered \<Rightarrow> bool list \<Rightarrow> bool list \<Rightarrow> GameState \<Rightarrow> bool \<times> GameState"
where
  "handleDrawConfirm state txt drawTenpai drawRiichi prev =
     (let tenpaiCount = length (filter (\<lambda>v. v) drawTenpai);
          beforeSnapshot = createCoreSnapshotFromState prev;
          (deltas1, riichiIndices) =
            foldl (\<lambda>(ds, ris) (v, idx).
                     if v then (add_at ds idx (- 1000), ris @ [idx]) else (ds, ris))
                  ([0, 0, 0, 0], []) (zip drawRiichi (indices drawRiichi));
          riichiCount = int (length riichiIndices);
          riichiPlayers = map (\<lambda>i. name_or_label (names prev) i) riichiIndices;
          deltas2 =
            (if tenpaiCount = 1 then
               (let tenpaiIndex = findIndex (\<lambda>v. v) drawTenpai
                in foldl (\<lambda>ds idx.
                            if idx = tenpaiIndex then ds
                            else add_at (add_at ds idx (- 1000)) tenpaiIndex 1000)
                         deltas1 (indices (points prev)))
             else if tenpaiCount = 2 then
               (let tenpaiIndices =
                      map fst (filter (\<lambda>(idx, v). v) (zip (indices drawTenpai) drawTenpai));
                    notTenpaiIndices =
                      map fst (filter (\<lambda>(idx, v). \<not> v) (zip (indices drawTenpai) drawTenpai));
                    ds' = foldl (\<lambda>ds i. add_at ds i (- 1500)) deltas1 notTenpaiIndices
                in foldl (\<lambda>ds i. add_at ds i 1500) ds' tenpaiIndices)
             else if tenpaiCount = 3 then
               (let notIndex = findIndex (\<lambda>v. \<not> v) drawTenpai
                in foldl (\<lambda>ds idx.
                            if idx = notIndex then ds
                            else add_at (add_at ds notIndex (- 1000)) idx 1000)
                         deltas1 (indices (points prev)))
             else deltas1);
          newPoints = applyDeltas (points prev) deltas2;
          newKyotaku = kyotaku prev + riichiCount;
          entry = buildHistoryEntry state txt draw riichiCount riichiPlayers deltas2;
          dealerTenpai = lookup drawTenpai (dealerIndex prev);
          (nextDealer, nextKyoku) =
            (if dealerTenpai \<noteq> Some True
             then (ensureSeatIndex (dealerIndex prev + 1), rem8 (kyokuIndex prev + 1))
             else (dealerIndex prev, kyokuIndex prev));
          nextHonba = honba prev + 1;
          afterSnapshot =
            \<lparr>points = newPoints, kyotaku = newKyotaku, honba = nextHonba,
             kyokuIndex = nextKyoku, dealerIndex = nextDealer,
             history = entry # history prev, names = names prev\<rparr>;
          meta = \<lparr>meta_type = draw, meta_summary = r_summary txt,
                  meta_timestamp = entry_timestamp entry\<rparr>
      in (True,
          \<lparr>points = points afterSnapshot, kyotaku = kyotaku afterSnapshot,
           honba = honba afterSnapshot, kyokuIndex = kyokuIndex afterSnapshot,
           dealerIndex = dealerIndex afterSnapshot,
           history = history afterSnapshot, names = names afterSnapshot,
           lastSettlementBefore = Some beforeSnapshot,
           lastSettlementAfter = Some afterSnapshot,
           lastSettlementMeta = Some meta, isInUndo = False\<rparr>))"

subsection \<open>Loading the persisted state\<close>

text \<open>
  The value \<^verbatim>\<open>JSON.parse\<close> returns. An object is the list of its keys and values
  (a key occurs once, as in a parsed object; the keys the component reads are ASCII
  and are written as \<open>string\<close>); a number is an integer, which is what the component
  writes in every numeric field.
\<close>

datatype json =
    JNull
  | JBool bool
  | JNum int
  | JStr jsstring
  | JArr "json list"
  | JObj "(string \<times> json) list"

datatype stored =
    NoItem          \<comment> \<open>\<^verbatim>\<open>getItem\<close> returned \<^verbatim>\<open>null\<close> or the empty string\<close>
  | Unparsable      \<comment> \<open>\<^verbatim>\<open>JSON.parse\<close> threw, and the \<^verbatim>\<open>catch\<close> logged it\<close>
  | Parsed json

fun get :: "json \<Rightarrow> string \<Rightarrow> json option" where
  \<comment> \<open>\<^verbatim>\<open>parsed.key\<close> for the keys of the stored document; \<open>None\<close> is \<^verbatim>\<open>undefined\<close>.
      Numbers, strings, booleans and arrays have none of these keys.\<close>
  "get (JObj kvs) k = map_of kvs k"
| "get _ k = None"

fun truthy :: "json \<Rightarrow> bool" where
  "truthy JNull = False"
| "truthy (JBool b) = b"
| "truthy (JNum n) = (n \<noteq> 0)"
| "truthy (JStr s) = (s \<noteq> [])"
| "truthy (JArr xs) = True"
| "truthy (JObj kvs) = True"

definition is_number :: "json option \<Rightarrow> bool" where
  \<comment> \<open>\<^verbatim>\<open>typeof v === "number"\<close>\<close>
  "is_number v = (case v of Some (JNum n) \<Rightarrow> True | _ \<Rightarrow> False)"

definition number_of :: "json option \<Rightarrow> int" where
  \<comment> \<open>The value of a field that passed \<open>is_number\<close>.\<close>
  "number_of v = (case v of Some (JNum n) \<Rightarrow> n | _ \<Rightarrow> 0)"

definition or_default :: "json option \<Rightarrow> json \<Rightarrow> json" where
  \<comment> \<open>\<^verbatim>\<open>v ?? d\<close>: only \<^verbatim>\<open>undefined\<close> and \<^verbatim>\<open>null\<close> give the default.\<close>
  "or_default v d = (case v of None \<Rightarrow> d | Some JNull \<Rightarrow> d | Some x \<Rightarrow> x)"

definition sanitizeNames :: "json option \<Rightarrow> jsstring list" where
  "sanitizeNames input =
     (case input of
        Some (JArr xs) \<Rightarrow>
          (if length xs \<noteq> 4 then createDefaultNames
           else map (\<lambda>(value, index).
                       case value of
                         JStr str \<Rightarrow>
                           (let trimmed = trim str
                            in if length trimmed > 0 then trimmed else PLAYER_LABELS ! index)
                       | _ \<Rightarrow> PLAYER_LABELS ! index)
                    (zip xs [0..<length xs]))
      | _ \<Rightarrow> createDefaultNames)"

text \<open>
  The object the load effect passes to \<^verbatim>\<open>setState\<close>. Its type annotation is
  \<^verbatim>\<open>GameState\<close>, but \<^verbatim>\<open>parsed\<close> is \<^verbatim>\<open>any\<close>: the fields hold what the document holds.
\<close>

record LoadedState =
  loaded_points :: "json list"
  loaded_kyotaku :: int
  loaded_honba :: int
  loaded_kyokuIndex :: int
  loaded_dealerIndex :: int
  loaded_history :: "json list"
  loaded_names :: "jsstring list"
  loaded_lastSettlementBefore :: json
  loaded_lastSettlementAfter :: json
  loaded_lastSettlementMeta :: json
  loaded_isInUndo :: json

definition accepts :: "json \<Rightarrow> bool" where
  \<comment> \<open>The condition of the load effect.\<close>
  "accepts parsed \<longleftrightarrow>
     truthy parsed
     \<and> (case get parsed ''points'' of Some (JArr xs) \<Rightarrow> length xs = 4 | _ \<Rightarrow> False)
     \<and> is_number (get parsed ''honba'')
     \<and> is_number (get parsed ''kyokuIndex'')
     \<and> is_number (get parsed ''dealerIndex'')"

definition baseState :: "json \<Rightarrow> LoadedState" where
  "baseState parsed =
     \<lparr>loaded_points = (case get parsed ''points'' of Some (JArr xs) \<Rightarrow> xs | _ \<Rightarrow> []),
      loaded_kyotaku =
        (if is_number (get parsed ''kyotaku'')
         then number_of (get parsed ''kyotaku'') else 0),
      loaded_honba = number_of (get parsed ''honba''),
      loaded_kyokuIndex = number_of (get parsed ''kyokuIndex''),
      loaded_dealerIndex = ensureSeatIndex (number_of (get parsed ''dealerIndex'')),
      loaded_history =
        (case get parsed ''history'' of Some (JArr es) \<Rightarrow> es | _ \<Rightarrow> []),
      loaded_names = sanitizeNames (get parsed ''names''),
      loaded_lastSettlementBefore =
        or_default (get parsed ''lastSettlementBefore'') JNull,
      loaded_lastSettlementAfter =
        or_default (get parsed ''lastSettlementAfter'') JNull,
      loaded_lastSettlementMeta =
        or_default (get parsed ''lastSettlementMeta'') JNull,
      loaded_isInUndo = or_default (get parsed ''isInUndo'') (JBool False)\<rparr>"

definition loadState :: "stored \<Rightarrow> LoadedState option" where
  \<comment> \<open>The load effect: \<open>Some\<close> is the state it installs, \<open>None\<close> means that
      \<^verbatim>\<open>setState\<close> is not called and the state in memory stays.\<close>
  "loadState raw =
     (case raw of
        NoItem \<Rightarrow> None
      | Unparsable \<Rightarrow> None
      | Parsed parsed \<Rightarrow> (if accepts parsed then Some (baseState parsed) else None))"

subsection \<open>The load contract as the specification words it\<close>

definition numeric_array4 :: "json option \<Rightarrow> bool" where
  \<comment> \<open>A four-element array of numbers, as the specification asks of \<^verbatim>\<open>points\<close>.\<close>
  "numeric_array4 v =
     (case v of
        Some (JArr xs) \<Rightarrow> length xs = 4 \<and> list_all (\<lambda>x. is_number (Some x)) xs
      | _ \<Rightarrow> False)"

definition nullish :: "json option \<Rightarrow> bool" where
  "nullish v \<longleftrightarrow> v = None \<or> v = Some JNull"

definition sanitized_name :: "json option \<Rightarrow> nat \<Rightarrow> jsstring" where
  \<comment> \<open>The name of seat \<open>i\<close> as the specification words it: the stored name
      trimmed, the positional label when it is empty, not a string, or not stored.\<close>
  "sanitized_name input i =
     (case input of
        Some (JArr ns) \<Rightarrow>
          (if length ns = 4
           then (case ns ! i of
                   JStr s \<Rightarrow> (if trim s = [] then PLAYER_LABELS ! i else trim s)
                 | _ \<Rightarrow> PLAYER_LABELS ! i)
           else PLAYER_LABELS ! i)
      | _ \<Rightarrow> PLAYER_LABELS ! i)"

subsection \<open>The settlement rules as the specification words them\<close>

text \<open>
  These definitions follow the wording of the specification: what each seat pays or
  receives. The theorems compare them with the arrays the code computes.
\<close>

definition seats :: "int list" where
  "seats = [0, 1, 2, 3]"

definition riichi_deduction :: "bool list \<Rightarrow> int \<Rightarrow> int" where
  \<comment> \<open>A riichi declarer puts down a 1000-point stick.\<close>
  "riichi_deduction flags i = (if lookup flags i = Some True then - 1000 else 0)"

definition riichi_declarers :: "bool list \<Rightarrow> int" where
  "riichi_declarers flags = int (length (filter (\<lambda>v. v) flags))"

definition tsumo_payment :: "GameState \<Rightarrow> int \<Rightarrow> int \<Rightarrow> int \<Rightarrow> int" where
  \<comment> \<open>What seat \<open>i\<close> pays on a self-draw: twice the base points when the winner is
      the dealer or the payer is, the base points otherwise.\<close>
  "tsumo_payment state winner bp i =
     (if winner = dealerIndex state \<or> i = dealerIndex state
      then roundUpToHundred (2 * bp) + honba state * 100
      else roundUpToHundred bp + honba state * 100)"

definition tsumo_delta :: "GameState \<Rightarrow> int \<Rightarrow> int \<Rightarrow> bool list \<Rightarrow> int \<Rightarrow> int" where
  "tsumo_delta state winner bp flags i =
     riichi_deduction flags i +
     (if i = winner
      then sum_list (map (tsumo_payment state winner bp) (filter (\<lambda>j. j \<noteq> winner) seats))
           + kyotaku state * 1000 + 1000 * riichi_declarers flags
      else - tsumo_payment state winner bp i)"

definition ron_payment :: "GameState \<Rightarrow> int \<Rightarrow> int \<Rightarrow> int" where
  "ron_payment state winner bp =
     roundUpToHundred ((if winner = dealerIndex state then 6 else 4) * bp) + honba state * 300"

definition ron_delta :: "GameState \<Rightarrow> int \<Rightarrow> int \<Rightarrow> int \<Rightarrow> bool list \<Rightarrow> int \<Rightarrow> int" where
  "ron_delta state winner loser bp flags i =
     riichi_deduction flags i +
     (if i = winner
      then ron_payment state winner bp + kyotaku state * 1000 + 1000 * riichi_declarers flags
      else if i = loser then - ron_payment state winner bp
      else 0)"

definition tenpai_transfer :: "nat \<Rightarrow> bool \<Rightarrow> int" where
  \<comment> \<open>The transfer of a seat at an exhaustive draw with \<open>k\<close> tenpai seats.\<close>
  "tenpai_transfer k t =
     (if k = 1 then (if t then 3000 else - 1000)
      else if k = 2 then (if t then 1500 else - 1500)
      else if k = 3 then (if t then 1000 else - 3000)
      else 0)"

definition draw_delta :: "bool list \<Rightarrow> bool list \<Rightarrow> int \<Rightarrow> int" where
  "draw_delta tenpai riichi i =
     riichi_deduction riichi i
     + tenpai_transfer (length (filter (\<lambda>v. v) tenpai)) (lookup tenpai i = Some True)"

subsection \<open>Sequences of settlements\<close>

datatype settlement =
    TsumoInput "int option" jsstring jsstring "bool list"
  | RonInput "int option" "int option" jsstring jsstring "bool list"
  | DrawInput "bool list" "bool list"

fun confirm :: "GameState \<Rightarrow> Rendered \<Rightarrow> settlement \<Rightarrow> GameState \<Rightarrow> bool \<times> GameState" where
  \<comment> \<open>The three confirmation buttons, with the content of their dialog.\<close>
  "confirm state txt (TsumoInput w h f r) prev = handleTsumoConfirm state txt w h f r prev"
| "confirm state txt (RonInput w l h f r) prev = handleRonConfirm state txt w l h f r prev"
| "confirm state txt (DrawInput t r) prev = handleDrawConfirm state txt t r prev"

definition seat_or_none :: "int option \<Rightarrow> bool" where
  "seat_or_none w = (case w of None \<Rightarrow> True | Some i \<Rightarrow> i \<in> set seats)"

fun valid_input :: "settlement \<Rightarrow> bool" where
  \<comment> \<open>What the dialogs can hold: a seat or no selection, any text for han and fu,
      four check boxes.\<close>
  "valid_input (TsumoInput w h f r) = (seat_or_none w \<and> length r = 4)"
| "valid_input (RonInput w l h f r) = (seat_or_none w \<and> seat_or_none l \<and> length r = 4)"
| "valid_input (DrawInput t r) = (length t = 4 \<and> length r = 4)"

inductive reachable :: "GameState \<Rightarrow> bool" where
  initial: "reachable createInitialGameState"
| settle: "reachable prev \<Longrightarrow> valid_input e \<Longrightarrow> confirm state txt e prev = (ok, s')
           \<Longrightarrow> reachable s'"


definition conserved :: "GameState \<Rightarrow> bool" where
  "conserved s \<longleftrightarrow> sum_list (points s) + kyotaku s * 1000 = 100000"

definition applied :: "SettlementPreview \<Rightarrow> GameState \<Rightarrow> bool \<times> GameState \<Rightarrow> bool" where
  \<comment> \<open>The handler accepted, and installed the deltas and the pool of the preview.\<close>
  "applied p prev res \<longleftrightarrow>
     fst res \<and> points (snd res) = applyDeltas (points prev) (deltas p)
     \<and> kyotaku (snd res) = kyotakuAfter p
     \<and> map entry_deltas (take 1 (history (snd res))) = [deltas p]"

definition win_progress :: "GameState \<Rightarrow> int \<Rightarrow> GameState \<Rightarrow> bool" where
  \<comment> \<open>Dealer, round and honba after a win, as the specification words it.\<close>
  "win_progress prev winner s' \<longleftrightarrow>
     (if winner = dealerIndex prev
      then dealerIndex s' = dealerIndex prev \<and> kyokuIndex s' = kyokuIndex prev
           \<and> honba s' = honba prev + 1
      else dealerIndex s' = (dealerIndex prev + 1) mod 4
           \<and> kyokuIndex s' = (kyokuIndex prev + 1) mod 8 \<and> honba s' = 0)"

definition draw_progress :: "GameState \<Rightarrow> bool list \<Rightarrow> GameState \<Rightarrow> bool" where
  \<comment> \<open>Dealer, round and honba after an exhaustive draw, as the specification words it.\<close>
  "draw_progress prev tenpai s' \<longleftrightarrow>
     honba s' = honba prev + 1
     \<and> (if lookup tenpai (dealerIndex prev) = Some True
        then dealerIndex s' = dealerIndex prev \<and> kyokuIndex s' = kyokuIndex prev
        else dealerIndex s' = (dealerIndex prev + 1) mod 4
             \<and> kyokuIndex s' = (kyokuIndex prev + 1) mod 8)"

subsection \<open>Auxiliary definitions and example data\<close>

text \<open>
  The riichi loop on four flags in closed form, and the inputs of the examples.
\<close>

definition stick :: "bool \<Rightarrow> int" where
  "stick v = (if v then - 1000 else 0)"

definition sticks :: "bool \<Rightarrow> bool \<Rightarrow> bool \<Rightarrow> bool \<Rightarrow> int list" where
  "sticks a b c d =
     (if a then [0] else []) @ (if b then [1] else []) @ (if c then [2] else [])
     @ (if d then [3] else [])"

definition no_text :: Rendered where
  "no_text = \<lparr>r_id = [], r_roundLabel = [], r_description = [], r_timestamp = [],
              r_summary = []\<rparr>"

definition old_entry :: HistoryEntry where
  "old_entry =
     \<lparr>entry_id = u16 ''1-0'', entry_type = draw, entry_roundLabel = [],
      entry_dealerLabel = Some (u16 ''Dai''), entry_riichiCount = 1, entry_description = [],
      entry_timestamp = [], entry_playerNames = [u16 ''Aki'', u16 ''Bo'', u16 ''Chie'', u16 ''Dai''],
      entry_riichiPlayers = [Some (u16 ''Bo'')], entry_deltas = [0, - 1000, 0, 0]\<rparr>"

definition mid_state :: GameState where
  \<comment> \<open>A state in the middle of a match: last round, seat 3 deals, two honba, one stick
      in the pool, one entry in the history, edited names.\<close>
  "mid_state =
     \<lparr>points = [30000, 20000, 26000, 23000], kyotaku = 1, honba = 2, kyokuIndex = 7,
      dealerIndex = 3, history = [old_entry],
      names = [u16 ''Aki'', u16 ''Bo'', u16 ''Chie'', u16 ''Dai''],
      lastSettlementBefore = None, lastSettlementAfter = None,
      lastSettlementMeta = None, isInUndo = False\<rparr>"

definition odd_document :: json where
  \<comment> \<open>A document whose points are not numbers and whose undo fields are not what
      the component writes.\<close>
  "odd_document =
     JObj [(''points'', JArr [JStr (u16 ''a''), JNull, JBool True, JArr []]),
           (''honba'', JNum 0), (''kyokuIndex'', JNum 0), (''dealerIndex'', JNum 0),
           (''lastSettlementBefore'', JNum 5), (''isInUndo'', JStr (u16 ''yes''))]"

definition plain_document :: json where
  "plain_document =
     JObj [(''points'', JArr [JNum 30000, JNum 20000, JNum 25000, JNum 24000]),
           (''honba'', JNum 2), (''kyokuIndex'', JNum 5), (''dealerIndex'', JNum 6),
           (''kyotaku'', JStr (u16 ''1'')),
           (''names'', JArr [JStr (u16 '' Aki ''), JStr (u16 ''  ''), JNum 7,
                                 JStr (u16 ''Bo'')])]"

definition odd_loaded :: LoadedState where
  "odd_loaded =
     \<lparr>loaded_points = [JStr (u16 ''a''), JNull, JBool True, JArr []],
      loaded_kyotaku = 0, loaded_honba = 0, loaded_kyokuIndex = 0,
      loaded_dealerIndex = 0, loaded_history = [],
      loaded_names = PLAYER_LABELS,
      loaded_lastSettlementBefore = JNum 5,
      loaded_lastSettlementAfter = JNull, loaded_lastSettlementMeta = JNull,
      loaded_isInUndo = JStr (u16 ''yes'')\<rparr>"

definition plain_loaded :: LoadedState where
  "plain_loaded =
     \<lparr>loaded_points = [JNum 30000, JNum 20000, JNum 25000, JNum 24000],
      loaded_kyotaku = 0, loaded_honba = 2, loaded_kyokuIndex = 5,
      loaded_dealerIndex = 2, loaded_history = [],
      loaded_names = [u16 ''Aki'', PLAYER_LABELS ! 1, PLAYER_LABELS ! 2, u16 ''Bo''],
      loaded_lastSettlementBefore = JNull,
      loaded_lastSettlementAfter = JNull, loaded_lastSettlementMeta = JNull,
      loaded_isInUndo = JBool False\<rparr>"

section \<open>Theorems\<close>

subsection \<open>Arrays of four entries\<close>

lemma indices4: "indices [a, b, c, d] = [0, 1, 2, 3]"
  by (simp add: indices_def upt_rec)

lemma length4: "length xs = 4 \<Longrightarrow> \<exists>a b c d. xs = [a, b, c, d]"
proof -
  assume len: "length xs = 4"
  then obtain a ys where xs: "xs = a # ys" and l3: "length ys = 3"
    by (cases xs) auto
  then obtain b zs where ys: "ys = b # zs" and l2: "length zs = 2"
    by (cases ys) auto
  then obtain c ws where zs: "zs = c # ws" and l1: "length ws = 1"
    by (cases zs) auto
  then obtain d where ws: "ws = [d]"
    by (cases ws) auto
  show ?thesis using xs ys zs ws by blast
qed

lemma add_at4:
  "add_at [a, b, c, d] 0 v = [a + v, b, c, d]"
  "add_at [a, b, c, d] 1 v = [a, b + v, c, d]"
  "add_at [a, b, c, d] 2 v = [a, b, c + v, d]"
  "add_at [a, b, c, d] 3 v = [a, b, c, d + v]"
  by (simp_all add: add_at_def eval_nat_numeral)

lemma applyDeltas4:
  "applyDeltas [p0, p1, p2, p3] [d0, d1, d2, d3] = [p0 + d0, p1 + d1, p2 + d2, p3 + d3]"
  by (simp add: applyDeltas_def indices4 lookup_def eval_nat_numeral)

lemma riichi_loop4:
  "foldl (\<lambda>(ds, ris) (v, idx). if v then (add_at ds idx (- 1000), ris @ [idx]) else (ds, ris))
         ([0, 0, 0, 0], []) (zip [a, b, c, d] (indices [a, b, c, d]))
   = ([stick a, stick b, stick c, stick d], sticks a b c d)"
  by (simp add: indices4 add_at4 stick_def sticks_def)

lemma riichi_deduction_seat:
  "riichi_deduction [a, b, c, d] 0 = stick a"
  "riichi_deduction [a, b, c, d] 1 = stick b"
  "riichi_deduction [a, b, c, d] 2 = stick c"
  "riichi_deduction [a, b, c, d] 3 = stick d"
  by (simp_all add: riichi_deduction_def lookup_def stick_def)

lemma sticks_count: "int (length (sticks a b c d)) = riichi_declarers [a, b, c, d]"
  by (simp add: riichi_declarers_def sticks_def)

lemma seat_cases: "w \<in> set seats \<Longrightarrow> w = 0 \<or> w = 1 \<or> w = 2 \<or> w = 3"
  by (simp add: seats_def)

subsection \<open>Parsing han and fu\<close>

lemma parseHanFu_Some:
  "parseInt10 (or_zero hanInput) = Num han \<Longrightarrow> 0 < han \<Longrightarrow>
   parseInt10 (or_zero fuInput) = Num fu \<Longrightarrow> 0 < fu \<Longrightarrow>
   parseHanFu hanInput fuInput = Some (han, fu)"
  by (simp add: parseHanFu_def positive_finite_def)

lemma parse_3: "parseInt10 (or_zero (u16 ''3'')) = Num 3"
  by (simp add: parseInt10_def or_zero_def u16_def is_ws_def is_digit_def digits_value_def
      DOUBLE_OVERFLOW_def Let_def)

lemma parse_40: "parseInt10 (or_zero (u16 ''40'')) = Num 40"
  by (simp add: parseInt10_def or_zero_def u16_def is_ws_def is_digit_def digits_value_def
      DOUBLE_OVERFLOW_def Let_def)

subsection \<open>The previews in closed form\<close>

lemma tsumo_closed:
  assumes "points state = [p0, p1, p2, p3]" and "winner \<in> set seats"
    and "parseHanFu hanInput fuInput = Some (han, fu)"
  shows "computeTsumoPreview state (Some winner) hanInput fuInput [a, b, c, d] =
     Some \<lparr>deltas = map (tsumo_delta state winner (calcBasePoints han fu) [a, b, c, d]) seats,
           winnerIndex = Some winner, kyotakuBefore = kyotaku state, kyotakuAfter = 0,
           kyotakuIncome = kyotaku state * 1000,
           riichiIncome = riichi_declarers [a, b, c, d] * 1000\<rparr>"
  unfolding computeTsumoPreview_def riichi_loop4
  using seat_cases [OF assms(2)]
  by (elim disjE)
     (simp_all add: assms(1,3) indices4 add_at4 Let_def tsumo_delta_def tsumo_payment_def
        seats_def riichi_deduction_seat sticks_count mult.commute)

lemma ron_closed:
  assumes "winner \<in> set seats" and "loser \<in> set seats" and "winner \<noteq> loser"
    and "parseHanFu hanInput fuInput = Some (han, fu)"
  shows "computeRonPreview state (Some winner) (Some loser) hanInput fuInput [a, b, c, d] =
     Some \<lparr>deltas = map (ron_delta state winner loser (calcBasePoints han fu) [a, b, c, d]) seats,
           winnerIndex = Some winner, kyotakuBefore = kyotaku state, kyotakuAfter = 0,
           kyotakuIncome = kyotaku state * 1000,
           riichiIncome = riichi_declarers [a, b, c, d] * 1000\<rparr>"
  unfolding computeRonPreview_def riichi_loop4
  using seat_cases [OF assms(1)] seat_cases [OF assms(2)] assms(3)
  by (elim disjE)
     (simp_all add: assms(4) add_at4 Let_def ron_delta_def ron_payment_def seats_def
        riichi_deduction_seat sticks_count mult.commute)

lemma draw_closed:
  assumes "points state = [p0, p1, p2, p3]"
  shows "computeDrawPreview state [ta, tb, tc, td] [a, b, c, d] =
     \<lparr>deltas = map (draw_delta [ta, tb, tc, td] [a, b, c, d]) seats,
      winnerIndex = None, kyotakuBefore = kyotaku state,
      kyotakuAfter = kyotaku state + riichi_declarers [a, b, c, d],
      kyotakuIncome = 0, riichiIncome = riichi_declarers [a, b, c, d] * 1000\<rparr>"
  unfolding computeDrawPreview_def riichi_loop4
  by (cases ta; cases tb; cases tc; cases td)
     (simp_all add: assms indices4 add_at4 Let_def draw_delta_def tenpai_transfer_def
        seats_def riichi_deduction_seat sticks_count lookup_def)

subsection \<open>The handlers in terms of the previews\<close>

lemma tsumo_None:
  "computeTsumoPreview prev w h f r = None \<Longrightarrow>
   handleTsumoConfirm state txt w h f r prev = (False, prev)"
  unfolding computeTsumoPreview_def handleTsumoConfirm_def
  by (simp add: Let_def case_prod_beta split: option.splits)

lemma tsumo_Some:
  assumes "computeTsumoPreview prev (Some w) h f r = Some p"
  shows "\<exists>e m. handleTsumoConfirm state txt (Some w) h f r prev =
     (True,
      \<lparr>points = applyDeltas (points prev) (deltas p), kyotaku = kyotakuAfter p,
       honba = (if w = dealerIndex prev then honba prev + 1 else 0),
       kyokuIndex = (if w = dealerIndex prev then kyokuIndex prev
                     else rem8 (kyokuIndex prev + 1)),
       dealerIndex = (if w = dealerIndex prev then dealerIndex prev
                      else ensureSeatIndex (dealerIndex prev + 1)),
       history = e # history prev, names = names prev,
       lastSettlementBefore = Some (createCoreSnapshotFromState prev),
       lastSettlementAfter =
         Some \<lparr>points = applyDeltas (points prev) (deltas p), kyotaku = kyotakuAfter p,
               honba = (if w = dealerIndex prev then honba prev + 1 else 0),
               kyokuIndex = (if w = dealerIndex prev then kyokuIndex prev
                             else rem8 (kyokuIndex prev + 1)),
               dealerIndex = (if w = dealerIndex prev then dealerIndex prev
                              else ensureSeatIndex (dealerIndex prev + 1)),
               history = e # history prev, names = names prev\<rparr>,
       lastSettlementMeta = Some m, isInUndo = False\<rparr>)
     \<and> entry_deltas e = deltas p \<and> entry_type e = tsumo"
  using assms
  unfolding computeTsumoPreview_def handleTsumoConfirm_def
  by (auto simp: Let_def case_prod_beta buildHistoryEntry_def split: option.splits)

lemma ron_None:
  "computeRonPreview prev w l h f r = None \<Longrightarrow>
   handleRonConfirm state txt w l h f r prev = (False, prev)"
  unfolding computeRonPreview_def handleRonConfirm_def
  by (simp add: Let_def case_prod_beta split: option.splits if_splits)

lemma ron_Some:
  assumes "computeRonPreview prev (Some w) (Some l) h f r = Some p"
  shows "\<exists>e m. handleRonConfirm state txt (Some w) (Some l) h f r prev =
     (True,
      \<lparr>points = applyDeltas (points prev) (deltas p), kyotaku = kyotakuAfter p,
       honba = (if w = dealerIndex prev then honba prev + 1 else 0),
       kyokuIndex = (if w = dealerIndex prev then kyokuIndex prev
                     else rem8 (kyokuIndex prev + 1)),
       dealerIndex = (if w = dealerIndex prev then dealerIndex prev
                      else ensureSeatIndex (dealerIndex prev + 1)),
       history = e # history prev, names = names prev,
       lastSettlementBefore = Some (createCoreSnapshotFromState prev),
       lastSettlementAfter =
         Some \<lparr>points = applyDeltas (points prev) (deltas p), kyotaku = kyotakuAfter p,
               honba = (if w = dealerIndex prev then honba prev + 1 else 0),
               kyokuIndex = (if w = dealerIndex prev then kyokuIndex prev
                             else rem8 (kyokuIndex prev + 1)),
               dealerIndex = (if w = dealerIndex prev then dealerIndex prev
                              else ensureSeatIndex (dealerIndex prev + 1)),
               history = e # history prev, names = names prev\<rparr>,
       lastSettlementMeta = Some m, isInUndo = False\<rparr>)
     \<and> entry_deltas e = deltas p \<and> entry_type e = ron"
  using assms
  unfolding computeRonPreview_def handleRonConfirm_def
  by (auto simp: Let_def case_prod_beta buildHistoryEntry_def split: option.splits if_splits)

lemma draw_Some:
  "\<exists>e m. handleDrawConfirm state txt t r prev =
     (True,
      \<lparr>points = applyDeltas (points prev) (deltas (computeDrawPreview prev t r)),
       kyotaku = kyotakuAfter (computeDrawPreview prev t r),
       honba = honba prev + 1,
       kyokuIndex = (if lookup t (dealerIndex prev) = Some True then kyokuIndex prev
                     else rem8 (kyokuIndex prev + 1)),
       dealerIndex = (if lookup t (dealerIndex prev) = Some True then dealerIndex prev
                      else ensureSeatIndex (dealerIndex prev + 1)),
       history = e # history prev, names = names prev,
       lastSettlementBefore = Some (createCoreSnapshotFromState prev),
       lastSettlementAfter =
         Some \<lparr>points = applyDeltas (points prev) (deltas (computeDrawPreview prev t r)),
               kyotaku = kyotakuAfter (computeDrawPreview prev t r),
               honba = honba prev + 1,
               kyokuIndex = (if lookup t (dealerIndex prev) = Some True then kyokuIndex prev
                             else rem8 (kyokuIndex prev + 1)),
               dealerIndex = (if lookup t (dealerIndex prev) = Some True then dealerIndex prev
                              else ensureSeatIndex (dealerIndex prev + 1)),
               history = e # history prev, names = names prev\<rparr>,
       lastSettlementMeta = Some m, isInUndo = False\<rparr>)
     \<and> entry_deltas e = deltas (computeDrawPreview prev t r) \<and> entry_type e = draw"
  unfolding computeDrawPreview_def handleDrawConfirm_def
  by (auto simp: Let_def case_prod_beta buildHistoryEntry_def)


subsection \<open>Conservation of points\<close>

lemma stick_sum: "stick a + stick b + stick c + stick d = - 1000 * riichi_declarers [a, b, c, d]"
  by (cases a; cases b; cases c; cases d) (simp_all add: stick_def riichi_declarers_def)

lemma tsumo_delta_sum:
  assumes "w \<in> set seats"
  shows "sum_list (map (tsumo_delta state w bp [a, b, c, d]) seats) = kyotaku state * 1000"
  using seat_cases [OF assms] stick_sum [of a b c d]
  by (elim disjE) (simp_all add: tsumo_delta_def seats_def riichi_deduction_seat)

lemma ron_delta_sum:
  assumes "w \<in> set seats" and "l \<in> set seats" and "w \<noteq> l"
  shows "sum_list (map (ron_delta state w l bp [a, b, c, d]) seats) = kyotaku state * 1000"
  using seat_cases [OF assms(1)] seat_cases [OF assms(2)] assms(3) stick_sum [of a b c d]
  by (elim disjE) (simp_all add: ron_delta_def seats_def riichi_deduction_seat)

lemma draw_delta_sum:
  "sum_list (map (draw_delta [ta, tb, tc, td] [a, b, c, d]) seats)
     = - 1000 * riichi_declarers [a, b, c, d]"
  using stick_sum [of a b c d]
  by (cases ta; cases tb; cases tc; cases td)
     (simp_all add: draw_delta_def seats_def riichi_deduction_seat tenpai_transfer_def
        lookup_def)

lemma applyDeltas_seats:
  "applyDeltas [p0, p1, p2, p3] (map g seats) = [p0 + g 0, p1 + g 1, p2 + g 2, p3 + g 3]"
  by (simp add: seats_def applyDeltas4)

lemma sum_applied:
  "sum_list (applyDeltas [p0, p1, p2, p3] (map g seats))
     = sum_list [p0, p1, p2, p3] + sum_list (map g seats)"
  by (simp add: applyDeltas_seats) (simp add: seats_def)

lemma tsumo_accept_parse:
  "computeTsumoPreview prev w h f r = Some p \<Longrightarrow>
   \<exists>winner han fu. w = Some winner \<and> parseHanFu h f = Some (han, fu)"
  unfolding computeTsumoPreview_def
  by (auto split: option.splits)

lemma ron_accept_parse:
  "computeRonPreview prev w l h f r = Some p \<Longrightarrow>
   \<exists>winner loser han fu. w = Some winner \<and> l = Some loser \<and> winner \<noteq> loser
      \<and> parseHanFu h f = Some (han, fu)"
  unfolding computeRonPreview_def
  by (auto split: option.splits if_splits)

lemma step_conserved:
  assumes len: "length (points prev) = 4"
    and T: "sum_list (points prev) + kyotaku prev * 1000 = T"
    and v: "valid_input e"
    and c: "confirm state txt e prev = (True, s')"
  shows "length (points s') = 4 \<and> sum_list (points s') + kyotaku s' * 1000 = T"
proof -
  obtain p0 p1 p2 p3 where pts: "points prev = [p0, p1, p2, p3]"
    using length4 [OF len] by blast
  show ?thesis
  proof (cases e)
    case (TsumoInput w h f r)
    have "length r = 4" using v TsumoInput by simp
    then obtain a b c d where fl: "r = [a, b, c, d]"
      using length4 by blast
    have H: "handleTsumoConfirm state txt w h f r prev = (True, s')"
      using c TsumoInput by simp
    then obtain p where pv: "computeTsumoPreview prev w h f r = Some p"
      using tsumo_None [of prev w h f r state "txt"] by (cases "computeTsumoPreview prev w h f r") auto
    then obtain winner han fu where w: "w = Some winner"
      and hf: "parseHanFu h f = Some (han, fu)"
      using tsumo_accept_parse by blast
    have ws: "winner \<in> set seats"
      using v TsumoInput w by (simp add: seat_or_none_def)
    have p: "deltas p = map (tsumo_delta prev winner (calcBasePoints han fu) [a, b, c, d]) seats"
      "kyotakuAfter p = 0"
      using pv tsumo_closed [OF pts ws hf, of a b c d] by (auto simp: w fl)
    from tsumo_Some [OF pv [unfolded w], of state "txt"] H
    have s': "points s' = applyDeltas (points prev) (deltas p)" "kyotaku s' = kyotakuAfter p"
      by (auto simp: w)
    show ?thesis
      using T tsumo_delta_sum [OF ws, of prev "calcBasePoints han fu" a b c d]
      by (simp add: s' p pts sum_applied) (simp add: applyDeltas_seats)
  next
    case (RonInput w l h f r)
    have "length r = 4" using v RonInput by simp
    then obtain a b c d where fl: "r = [a, b, c, d]"
      using length4 by blast
    have H: "handleRonConfirm state txt w l h f r prev = (True, s')"
      using c RonInput by simp
    then obtain p where pv: "computeRonPreview prev w l h f r = Some p"
      using ron_None [of prev w l h f r state "txt"] by (cases "computeRonPreview prev w l h f r") auto
    then obtain winner loser han fu where w: "w = Some winner" and l: "l = Some loser"
      and ne: "winner \<noteq> loser" and hf: "parseHanFu h f = Some (han, fu)"
      using ron_accept_parse by blast
    have ws: "winner \<in> set seats" and ls: "loser \<in> set seats"
      using v RonInput w l by (simp_all add: seat_or_none_def)
    have p: "deltas p = map (ron_delta prev winner loser (calcBasePoints han fu) [a, b, c, d]) seats"
      "kyotakuAfter p = 0"
      using pv ron_closed [OF ws ls ne hf, of prev a b c d] by (auto simp: w l fl)
    from ron_Some [OF pv [unfolded w l], of state "txt"] H
    have s': "points s' = applyDeltas (points prev) (deltas p)" "kyotaku s' = kyotakuAfter p"
      by (auto simp: w l)
    show ?thesis
      using T ron_delta_sum [OF ws ls ne, of prev "calcBasePoints han fu" a b c d]
      by (simp add: s' p pts sum_applied) (simp add: applyDeltas_seats)
  next
    case (DrawInput t r)
    have "length t = 4" using v DrawInput by simp
    then obtain ta tb tc td where tf: "t = [ta, tb, tc, td]"
      using length4 by blast
    have "length r = 4" using v DrawInput by simp
    then obtain a b c d where fl: "r = [a, b, c, d]"
      using length4 by blast
    have H: "handleDrawConfirm state txt t r prev = (True, s')"
      using c DrawInput by simp
    from draw_Some [of state "txt" t r prev] H
    have s': "points s' = applyDeltas (points prev) (deltas (computeDrawPreview prev t r))"
      "kyotaku s' = kyotakuAfter (computeDrawPreview prev t r)"
      by auto
    show ?thesis
      using T draw_delta_sum [of ta tb tc td a b c d]
      by (simp add: s' pts tf fl draw_closed [OF pts] sum_applied) (simp add: applyDeltas_seats)
  qed
qed

lemma confirm_rejected:
  assumes "confirm state txt e prev = (False, s')"
  shows "s' = prev"
proof (cases e)
  case (TsumoInput w h f r)
  show ?thesis
  proof (cases "computeTsumoPreview prev w h f r")
    case None
    from tsumo_None [OF None, of state "txt"] assms TsumoInput show ?thesis by simp
  next
    case (Some p)
    then obtain winner where w: "w = Some winner"
      using tsumo_accept_parse by blast
    from tsumo_Some [OF Some [unfolded w], of state "txt"] assms TsumoInput w
    show ?thesis by auto
  qed
next
  case (RonInput w l h f r)
  show ?thesis
  proof (cases "computeRonPreview prev w l h f r")
    case None
    from ron_None [OF None, of state "txt"] assms RonInput show ?thesis by simp
  next
    case (Some p)
    then obtain winner loser where w: "w = Some winner" "l = Some loser"
      using ron_accept_parse by blast
    from ron_Some [OF Some [unfolded w], of state "txt"] assms RonInput w
    show ?thesis by auto
  qed
next
  case (DrawInput t r)
  from draw_Some [of state "txt" t r prev] assms DrawInput show ?thesis by auto
qed

lemma reachable_inv:
  "reachable s \<Longrightarrow> length (points s) = 4 \<and> sum_list (points s) + kyotaku s * 1000 = 100000"
proof (induction rule: reachable.induct)
  case initial
  show ?case by (simp add: createInitialGameState_def)
next
  case (settle prev e state rendered ok s')
  show ?case
  proof (cases ok)
    case True
    with settle have c: "confirm state rendered e prev = (True, s')" by simp
    from settle have "length (points prev) = 4"
      and "sum_list (points prev) + kyotaku prev * 1000 = 100000" by simp_all
    then show ?thesis using settle(2) c by (rule step_conserved)
  next
    case False
    with settle have c: "confirm state rendered e prev = (False, s')" by simp
    have "s' = prev" using c by (rule confirm_rejected)
    with settle show ?thesis by simp
  qed
qed

lemma tsumo_preview_Some:
  "parseHanFu h f = Some (han, fu) \<Longrightarrow>
   \<exists>p. computeTsumoPreview prev (Some w) h f r = Some p"
  unfolding computeTsumoPreview_def
  by (simp add: Let_def case_prod_beta)

lemma ron_preview_Some:
  "w \<noteq> l \<Longrightarrow> parseHanFu h f = Some (han, fu) \<Longrightarrow>
   \<exists>p. computeRonPreview prev (Some w) (Some l) h f r = Some p"
  unfolding computeRonPreview_def
  by (simp add: Let_def case_prod_beta)

lemma tsumo_accepted:
  assumes "parseHanFu h f = Some (han, fu)"
  shows "\<exists>s'. handleTsumoConfirm state rendered (Some w) h f r prev = (True, s')"
proof -
  from tsumo_preview_Some [OF assms] obtain p
    where "computeTsumoPreview prev (Some w) h f r = Some p" by blast
  from tsumo_Some [OF this, of state rendered] show ?thesis by blast
qed

lemma ron_accepted:
  assumes "w \<noteq> l" and "parseHanFu h f = Some (han, fu)"
  shows "\<exists>s'. handleRonConfirm state rendered (Some w) (Some l) h f r prev = (True, s')"
proof -
  from ron_preview_Some [OF assms] obtain p
    where "computeRonPreview prev (Some w) (Some l) h f r = Some p" by blast
  from ron_Some [OF this, of state rendered] show ?thesis by blast
qed


lemma mid_state_fields:
  "points mid_state = [30000, 20000, 26000, 23000]" "kyotaku mid_state = 1"
  "honba mid_state = 2" "kyokuIndex mid_state = 7" "dealerIndex mid_state = 3"
  "history mid_state = [old_entry]"
  "names mid_state = [u16 ''Aki'', u16 ''Bo'', u16 ''Chie'', u16 ''Dai'']"
  "lastSettlementBefore mid_state = None"
  by (simp_all add: mid_state_def)

lemma tsumo_confirmed:
  assumes "length (points prev) = 4" and "length r = 4" and "winner \<in> set seats"
    and "parseHanFu h f = Some (han, fu)"
  shows "fst (handleTsumoConfirm state txt (Some winner) h f r prev)"
proof -
  obtain p0 p1 p2 p3 where pts: "points prev = [p0, p1, p2, p3]"
    using length4 [OF assms(1)] by blast
  obtain a b c d where fl: "r = [a, b, c, d]"
    using length4 [OF assms(2)] by blast
  from tsumo_closed [OF pts assms(3,4), of a b c d]
  obtain p where "computeTsumoPreview prev (Some winner) h f r = Some p"
    by (simp add: fl)
  from tsumo_Some [OF this, of state "txt"] show ?thesis by auto
qed

lemma draw_confirmed: "fst (handleDrawConfirm state txt t r prev)"
  using draw_Some [of state "txt" t r prev] by auto

subsection \<open>Loading\<close>

lemma sanitizeNames_length: "length (sanitizeNames v) = 4"
  by (auto simp: sanitizeNames_def createDefaultNames_def PLAYER_LABELS_def
      split: option.splits json.splits)

lemma sanitizeNames_nth:
  assumes "i < 4"
  shows "sanitizeNames v ! i = sanitized_name v i"
proof (cases "\<exists>ns. v = Some (JArr ns) \<and> length ns = 4")
  case True
  then obtain ns where v: "v = Some (JArr ns)" and len: "length ns = 4" by blast
  have "i < length (zip ns [0..<length ns])" using assms len by simp
  then have "sanitizeNames v ! i =
     (case ns ! i of
        JStr s \<Rightarrow> (let trimmed = trim s in if length trimmed > 0 then trimmed else PLAYER_LABELS ! i)
      | _ \<Rightarrow> PLAYER_LABELS ! i)"
    using assms len by (simp add: sanitizeNames_def v)
  then show ?thesis
    by (simp add: sanitized_name_def v len Let_def split: json.splits)
next
  case False
  then show ?thesis
    by (auto simp: sanitizeNames_def sanitized_name_def createDefaultNames_def
        split: option.splits json.splits)
qed

lemma ensureSeatIndex_seat:
  "0 \<le> d \<Longrightarrow> ensureSeatIndex d = d mod 4 \<and> ensureSeatIndex d \<in> set seats"
proof -
  assume d: "0 \<le> d"
  have "0 \<le> d mod 4" "d mod 4 < 4" by simp_all
  then have "d mod 4 = 0 \<or> d mod 4 = 1 \<or> d mod 4 = 2 \<or> d mod 4 = 3" by arith
  then show ?thesis using d by (auto simp: ensureSeatIndex_def seats_def)
qed

lemma ensureSeatIndex_negative: "ensureSeatIndex (- 1) = - 1"
  by (simp add: ensureSeatIndex_def)

lemma load_odd: "loadState (Parsed odd_document) = Some odd_loaded"
  by (simp add: loadState_def accepts_def odd_document_def is_number_def baseState_def
      number_of_def ensureSeatIndex_def sanitizeNames_def or_default_def
      createDefaultNames_def odd_loaded_def)

lemma load_plain: "loadState (Parsed plain_document) = Some plain_loaded"
  by (simp add: loadState_def accepts_def plain_document_def is_number_def baseState_def
      number_of_def ensureSeatIndex_def sanitizeNames_def or_default_def
      plain_loaded_def trim_def is_ws_def u16_def upt_rec Let_def numeral_2_eq_2
      numeral_3_eq_3)

subsection \<open>Claims\<close>


text \<open>
  C2. For all positive integers han and fu, \<open>calcBasePoints\<close> equals the tiered table
  evaluated top-down, first match wins, the last tier being \<open>min 2000 (fu * 2^(han+2))\<close>;
  in particular (4,30) and (3,60) give 2000, (13,20) gives 8000 and (6,30) gives 3000.
\<close>

theorem calcBasePoints_table:
  "(0 < han \<and> 0 < fu \<longrightarrow> calcBasePoints han fu = basePoints_table han fu)
   \<and> calcBasePoints 4 30 = 2000 \<and> calcBasePoints 3 60 = 2000
   \<and> calcBasePoints 13 20 = 8000 \<and> calcBasePoints 6 30 = 3000"
  by (simp add: calcBasePoints_def basePoints_table_def Let_def min_def)

theorem calcBasePoints_table_witness:
  "(0::int) < 2 \<and> (0::int) < 40 \<and> calcBasePoints 2 40 = basePoints_table 2 40
   \<and> basePoints_table 2 40 = 640"
  using calcBasePoints_table [of 2 40] by (simp add: basePoints_table_def)

text \<open>
  C1. From the initial state (25000 points at each seat, empty pool, honba 0, round 0,
  dealer 0), after any finite sequence of settlements whose inputs are seats (or no
  selection) and four-entry flag arrays, the points of the four seats plus 1000 per
  stick in the pool are 100000.
\<close>

theorem points_conserved: "reachable s \<Longrightarrow> conserved s"
  using reachable_inv by (simp add: conserved_def)

theorem points_conserved_witness:
  "reachable (snd (handleDrawConfirm createInitialGameState no_text
                     [True, False, False, False] [False, True, False, False]
                     createInitialGameState))
   \<and> conserved (snd (handleDrawConfirm createInitialGameState no_text
                     [True, False, False, False] [False, True, False, False]
                     createInitialGameState))
   \<and> points (snd (handleDrawConfirm createInitialGameState no_text
                     [True, False, False, False] [False, True, False, False]
                     createInitialGameState)) = [28000, 23000, 24000, 24000]
   \<and> kyotaku (snd (handleDrawConfirm createInitialGameState no_text
                     [True, False, False, False] [False, True, False, False]
                     createInitialGameState)) = 1"
proof -
  let ?e = "DrawInput [True, False, False, False] [False, True, False, False]"
  let ?H = "handleDrawConfirm createInitialGameState no_text
              [True, False, False, False] [False, True, False, False] createInitialGameState"
  have v: "valid_input ?e" by simp
  have c: "confirm createInitialGameState no_text ?e createInitialGameState = (fst ?H, snd ?H)"
    by simp
  have r: "reachable (snd ?H)"
    by (rule reachable.settle [OF reachable.initial v c])
  have pts: "points createInitialGameState = [25000, 25000, 25000, 25000]"
    by (simp add: createInitialGameState_def)
  have k: "kyotaku createInitialGameState = 0"
    by (simp add: createInitialGameState_def)
  from draw_Some [of createInitialGameState no_text "[True, False, False, False]"
      "[False, True, False, False]" createInitialGameState]
  have val: "points (snd ?H) = [28000, 23000, 24000, 24000] \<and> kyotaku (snd ?H) = 1"
    by (auto simp: draw_closed [OF pts] pts k applyDeltas_seats draw_delta_def
        tenpai_transfer_def riichi_deduction_def riichi_declarers_def lookup_def)
  from points_conserved [OF r] r val show ?thesis by simp
qed

text \<open>
  C3. Self-draw preview, for a winner seat and han and fu that parse to positive finite
  integers: the delta of every seat is its riichi deduction (-1000 for a declarer), plus,
  for a payer, minus its payment (twice the base points rounded up to the hundred when
  the winner or the payer is the dealer, the base points rounded up otherwise, plus
  100 per honba), and for the winner the sum of the three payments plus the pool and
  1000 per riichi declarer; the pool after is 0. A dealer winning with han 3, fu 40,
  honba 0, an empty pool and no riichi collects 2600 from each seat, 7800 in all.
\<close>

theorem computeTsumoPreview_deltas:
  assumes "length (points state) = 4" and "length riichiFlags = 4"
    and "winner \<in> set seats"
    and "parseInt10 (or_zero hanInput) = Num han" and "0 < han"
    and "parseInt10 (or_zero fuInput) = Num fu" and "0 < fu"
  shows "\<exists>p. computeTsumoPreview state (Some winner) hanInput fuInput riichiFlags = Some p
     \<and> deltas p = map (tsumo_delta state winner (calcBasePoints han fu) riichiFlags) seats
     \<and> kyotakuAfter p = 0
     \<and> (winner = dealerIndex state \<and> han = 3 \<and> fu = 40 \<and> honba state = 0
          \<and> kyotaku state = 0 \<and> riichiFlags = [False, False, False, False]
        \<longrightarrow> deltas p = map (\<lambda>i. if i = winner then 7800 else - 2600) seats)"
proof -
  obtain p0 p1 p2 p3 where pts: "points state = [p0, p1, p2, p3]"
    using length4 [OF assms(1)] by blast
  obtain a b c d where fl: "riichiFlags = [a, b, c, d]"
    using length4 [OF assms(2)] by blast
  have hf: "parseHanFu hanInput fuInput = Some (han, fu)"
    using assms(4-7) by (rule parseHanFu_Some)
  have inst: "winner = dealerIndex state \<and> han = 3 \<and> fu = 40 \<and> honba state = 0
          \<and> kyotaku state = 0 \<and> riichiFlags = [False, False, False, False]
        \<longrightarrow> map (tsumo_delta state winner (calcBasePoints han fu) riichiFlags) seats
            = map (\<lambda>i. if i = winner then 7800 else - 2600) seats"
    using seat_cases [OF assms(3)]
    by (auto simp: tsumo_delta_def tsumo_payment_def seats_def riichi_deduction_def
        riichi_declarers_def lookup_def calcBasePoints_def roundUpToHundred_def)
  show ?thesis
    using tsumo_closed [OF pts assms(3) hf] inst by (simp add: fl)
qed

theorem computeTsumoPreview_deltas_witness:
  "length (points createInitialGameState) = 4
   \<and> (0::int) \<in> set seats
   \<and> parseInt10 (or_zero (u16 ''3'')) = Num 3 \<and> parseInt10 (or_zero (u16 ''40'')) = Num 40
   \<and> (\<exists>p. computeTsumoPreview createInitialGameState (Some 0) (u16 ''3'') (u16 ''40'')
             [False, False, False, False] = Some p
          \<and> deltas p = [7800, - 2600, - 2600, - 2600] \<and> kyotakuAfter p = 0)"
proof -
  have h1: "length (points createInitialGameState) = 4"
    by (simp add: createInitialGameState_def)
  have h2: "length [False, False, False, False] = 4" by simp
  have h3: "(0::int) \<in> set seats" by (simp add: seats_def)
  have d: "dealerIndex createInitialGameState = 0" "honba createInitialGameState = 0"
    "kyotaku createInitialGameState = 0"
    by (simp_all add: createInitialGameState_def)
  from computeTsumoPreview_deltas [OF h1 h2 h3 parse_3 _ parse_40]
  show ?thesis using h1 h3 parse_3 parse_40 d by (auto simp: seats_def)
qed

text \<open>
  C4. Discard-win preview, for distinct winner and loser seats and han and fu that parse
  to positive finite integers: the payment is the base points times 6 (dealer winner)
  or 4, rounded up to the hundred, plus 300 per honba; the loser's delta is its riichi
  deduction minus the payment, the winner's its riichi deduction plus the payment, the
  pool and 1000 per riichi declarer, the two other seats carry only their riichi
  deduction, and the pool after is 0. With han 3, fu 40 and honba 0 the payment is
  5200 for a non-dealer winner and 7700 for the dealer.
\<close>

theorem computeRonPreview_deltas:
  assumes "length riichiFlags = 4"
    and "winner \<in> set seats" and "loser \<in> set seats" and "winner \<noteq> loser"
    and "parseInt10 (or_zero hanInput) = Num han" and "0 < han"
    and "parseInt10 (or_zero fuInput) = Num fu" and "0 < fu"
  shows "\<exists>p. computeRonPreview state (Some winner) (Some loser) hanInput fuInput riichiFlags
               = Some p
     \<and> deltas p = map (ron_delta state winner loser (calcBasePoints han fu) riichiFlags) seats
     \<and> kyotakuAfter p = 0
     \<and> (han = 3 \<and> fu = 40 \<and> honba state = 0
        \<longrightarrow> ron_payment state winner (calcBasePoints han fu)
            = (if winner = dealerIndex state then 7700 else 5200))"
proof -
  obtain a b c d where fl: "riichiFlags = [a, b, c, d]"
    using length4 [OF assms(1)] by blast
  have hf: "parseHanFu hanInput fuInput = Some (han, fu)"
    using assms(5-8) by (rule parseHanFu_Some)
  have inst: "han = 3 \<and> fu = 40 \<and> honba state = 0
        \<longrightarrow> ron_payment state winner (calcBasePoints han fu)
            = (if winner = dealerIndex state then 7700 else 5200)"
    by (simp add: ron_payment_def calcBasePoints_def roundUpToHundred_def)
  show ?thesis
    using ron_closed [OF assms(2-4) hf] inst by (simp add: fl)
qed

theorem computeRonPreview_deltas_witness:
  "(2::int) \<in> set seats \<and> (1::int) \<in> set seats \<and> (2::int) \<noteq> 1
   \<and> parseInt10 (or_zero (u16 ''3'')) = Num 3 \<and> parseInt10 (or_zero (u16 ''40'')) = Num 40
   \<and> (\<exists>p. computeRonPreview createInitialGameState (Some 2) (Some 1) (u16 ''3'') (u16 ''40'')
             [False, True, True, False] = Some p
          \<and> deltas p = [0, - 6200, 6200, 0] \<and> kyotakuAfter p = 0)"
proof -
  have h1: "length [False, True, True, False] = 4" by simp
  have h2: "(2::int) \<in> set seats" by (simp add: seats_def)
  have h3: "(1::int) \<in> set seats" by (simp add: seats_def)
  have h4: "(2::int) \<noteq> 1" by simp
  have d: "dealerIndex createInitialGameState = 0" "honba createInitialGameState = 0"
    "kyotaku createInitialGameState = 0"
    by (simp_all add: createInitialGameState_def)
  from computeRonPreview_deltas [OF h1 h2 h3 h4 parse_3 _ parse_40,
      of createInitialGameState]
  show ?thesis using h2 h3 parse_3 parse_40 d
    by (simp add: seats_def ron_delta_def ron_payment_def riichi_deduction_def
        riichi_declarers_def lookup_def calcBasePoints_def roundUpToHundred_def)
qed

text \<open>
  C5. Exhaustive-draw preview, for four tenpai flags and four riichi flags: the function
  is total, and the delta of every seat is its riichi deduction plus the tenpai
  transfer: with one tenpai seat +3000 for it and -1000 for the others, with two +1500
  and -1500, with three +1000 and -3000 for the seat that is not tenpai, with none or
  four nothing. The pool after is the pool before plus the number of riichi declarers,
  the pool income is 0, and no delta depends on the pool.
\<close>

theorem computeDrawPreview_deltas:
  assumes "length (points state) = 4" and "length tenpaiFlags = 4"
    and "length riichiFlags = 4"
  shows "deltas (computeDrawPreview state tenpaiFlags riichiFlags)
           = map (draw_delta tenpaiFlags riichiFlags) seats
     \<and> kyotakuBefore (computeDrawPreview state tenpaiFlags riichiFlags) = kyotaku state
     \<and> kyotakuAfter (computeDrawPreview state tenpaiFlags riichiFlags)
           = kyotaku state + riichi_declarers riichiFlags
     \<and> kyotakuIncome (computeDrawPreview state tenpaiFlags riichiFlags) = 0"
proof -
  obtain p0 p1 p2 p3 where pts: "points state = [p0, p1, p2, p3]"
    using length4 [OF assms(1)] by blast
  obtain ta tb tc td where tf: "tenpaiFlags = [ta, tb, tc, td]"
    using length4 [OF assms(2)] by blast
  obtain a b c d where fl: "riichiFlags = [a, b, c, d]"
    using length4 [OF assms(3)] by blast
  show ?thesis
    unfolding tf fl by (simp add: draw_closed [OF pts])
qed

theorem computeDrawPreview_deltas_witness:
  "length (points createInitialGameState) = 4
   \<and> deltas (computeDrawPreview createInitialGameState [True, False, True, False]
               [False, True, True, False]) = [1500, - 2500, 500, - 1500]
   \<and> kyotakuAfter (computeDrawPreview createInitialGameState [True, False, True, False]
               [False, True, True, False]) = 2"
proof -
  have h1: "length (points createInitialGameState) = 4"
    by (simp add: createInitialGameState_def)
  have h2: "length [True, False, True, False] = 4" by simp
  have h3: "length [False, True, True, False] = 4" by simp
  have d: "kyotaku createInitialGameState = 0"
    by (simp add: createInitialGameState_def)
  from computeDrawPreview_deltas [OF h1 h2 h3]
  show ?thesis using h1 d
    by (simp add: seats_def draw_delta_def tenpai_transfer_def riichi_deduction_def
        riichi_declarers_def lookup_def)
qed

text \<open>
  C6. Dealer, round and honba after a settlement of a state with a dealer \<open>d \<ge> 0\<close>
  and a round \<open>r \<ge> 0\<close>. A self-draw with a winner, and a discard-win with a winner
  and a different loser, are confirmed when han and fu parse to positive finite
  integers, and an exhaustive draw always is. After a win of the dealer the dealer and
  the round are the same and honba is one more; after a win of another seat the dealer
  is \<open>(d + 1) mod 4\<close>, the round \<open>(r + 1) mod 8\<close> and honba 0; after an exhaustive
  draw honba is one more, and dealer and round move in the same way unless the
  dealer's seat is flagged tenpai. Whenever a handler returns true its next state is
  of that form. The round after 7 is 0.
\<close>

theorem round_progression:
  assumes "0 \<le> dealerIndex prev" and "0 \<le> kyokuIndex prev"
  shows "(parseInt10 (or_zero tsumoHan) = Num han \<and> 0 < han
            \<and> parseInt10 (or_zero tsumoFu) = Num fu \<and> 0 < fu
          \<longrightarrow> (\<exists>s1. handleTsumoConfirm state rendered (Some winner) tsumoHan tsumoFu
                         tsumoRiichi prev = (True, s1)
                    \<and> win_progress prev winner s1))
     \<and> (ronW \<noteq> ronL
            \<and> parseInt10 (or_zero ronHan) = Num han' \<and> 0 < han'
            \<and> parseInt10 (or_zero ronFu) = Num fu' \<and> 0 < fu'
          \<longrightarrow> (\<exists>s2. handleRonConfirm state rendered (Some ronW) (Some ronL) ronHan ronFu
                         ronRiichi prev = (True, s2)
                    \<and> win_progress prev ronW s2))
     \<and> (\<exists>s3. handleDrawConfirm state rendered drawTenpai drawRiichi prev = (True, s3)
            \<and> draw_progress prev drawTenpai s3)
     \<and> (handleTsumoConfirm state rendered anyWinner anyHan anyFu anyRiichi prev = (True, s4)
            \<longrightarrow> (\<exists>w. anyWinner = Some w \<and> win_progress prev w s4))
     \<and> (handleRonConfirm state rendered anyWinner anyLoser anyHan anyFu anyRiichi prev
            = (True, s5)
            \<longrightarrow> (\<exists>w. anyWinner = Some w \<and> win_progress prev w s5))
     \<and> rem8 (7 + 1) = 0"
proof -
  have adv: "ensureSeatIndex (dealerIndex prev + 1) = (dealerIndex prev + 1) mod 4"
    "rem8 (kyokuIndex prev + 1) = (kyokuIndex prev + 1) mod 8"
    using assms by (simp_all add: ensureSeatIndex_def rem8_def)
  have t: "\<exists>w. tw = Some w \<and> win_progress prev w s"
    if H: "handleTsumoConfirm state rendered tw h f r prev = (True, s)" for tw h f r s
  proof (cases "computeTsumoPreview prev tw h f r")
    case None
    from tsumo_None [OF None, of state rendered] H show ?thesis by simp
  next
    case (Some p)
    then obtain w where w: "tw = Some w"
      using tsumo_accept_parse by blast
    from tsumo_Some [OF Some [unfolded w], of state rendered] H w
    have "win_progress prev w s"
      by (auto simp: win_progress_def adv)
    with w show ?thesis by simp
  qed
  have r: "\<exists>w. rw = Some w \<and> win_progress prev w s"
    if H: "handleRonConfirm state rendered rw rl h f r prev = (True, s)" for rw rl h f r s
  proof (cases "computeRonPreview prev rw rl h f r")
    case None
    from ron_None [OF None, of state rendered] H show ?thesis by simp
  next
    case (Some p)
    then obtain w l where w: "rw = Some w" "rl = Some l"
      using ron_accept_parse by blast
    from ron_Some [OF Some [unfolded w], of state rendered] H w
    have "win_progress prev w s"
      by (auto simp: win_progress_def adv)
    with w show ?thesis by simp
  qed
  have ts: "\<exists>s1. handleTsumoConfirm state rendered (Some winner) tsumoHan tsumoFu
                         tsumoRiichi prev = (True, s1)
                    \<and> win_progress prev winner s1"
    if P: "parseInt10 (or_zero tsumoHan) = Num han \<and> 0 < han
            \<and> parseInt10 (or_zero tsumoFu) = Num fu \<and> 0 < fu"
  proof -
    from P have "parseHanFu tsumoHan tsumoFu = Some (han, fu)"
      by (simp add: parseHanFu_Some)
    from tsumo_accepted [OF this, of state rendered winner tsumoRiichi prev]
    obtain s1 where H: "handleTsumoConfirm state rendered (Some winner) tsumoHan tsumoFu
                         tsumoRiichi prev = (True, s1)" by blast
    from t [OF H] H show ?thesis by auto
  qed
  have rs: "\<exists>s2. handleRonConfirm state rendered (Some ronW) (Some ronL) ronHan ronFu
                         ronRiichi prev = (True, s2)
                    \<and> win_progress prev ronW s2"
    if P: "ronW \<noteq> ronL
            \<and> parseInt10 (or_zero ronHan) = Num han' \<and> 0 < han'
            \<and> parseInt10 (or_zero ronFu) = Num fu' \<and> 0 < fu'"
  proof -
    from P have ne: "ronW \<noteq> ronL" and "parseHanFu ronHan ronFu = Some (han', fu')"
      by (simp_all add: parseHanFu_Some)
    from ron_accepted [OF this, of state rendered ronRiichi prev]
    obtain s2 where H: "handleRonConfirm state rendered (Some ronW) (Some ronL) ronHan ronFu
                         ronRiichi prev = (True, s2)" by blast
    from r [OF H] H show ?thesis by auto
  qed
  have d: "\<exists>s3. handleDrawConfirm state rendered drawTenpai drawRiichi prev = (True, s3)
            \<and> draw_progress prev drawTenpai s3"
    using draw_Some [of state rendered drawTenpai drawRiichi prev]
    by (auto simp: draw_progress_def adv)
  have w8: "rem8 (7 + 1) = 0" by (simp add: rem8_def)
  from ts rs d t r w8 show ?thesis by blast
qed

theorem round_progression_witness:
  "0 \<le> dealerIndex mid_state \<and> 0 \<le> kyokuIndex mid_state
   \<and> parseInt10 (or_zero (u16 ''3'')) = Num 3 \<and> parseInt10 (or_zero (u16 ''40'')) = Num 40
   \<and> (\<exists>s1. handleTsumoConfirm mid_state no_text (Some 3) (u16 ''3'') (u16 ''40'')
              [False, False, False, False] mid_state = (True, s1)
          \<and> dealerIndex s1 = 3 \<and> kyokuIndex s1 = 7 \<and> honba s1 = 3)
   \<and> (\<exists>s2. handleRonConfirm mid_state no_text (Some 0) (Some 2) (u16 ''3'') (u16 ''40'')
              [False, True, False, False] mid_state = (True, s2)
          \<and> dealerIndex s2 = 0 \<and> kyokuIndex s2 = 0 \<and> honba s2 = 0)
   \<and> (\<exists>s3. handleDrawConfirm mid_state no_text [True, False, False, False]
              [False, False, False, False] mid_state = (True, s3)
          \<and> dealerIndex s3 = 0 \<and> kyokuIndex s3 = 0 \<and> honba s3 = 3)
   \<and> (\<exists>s3. handleDrawConfirm mid_state no_text [False, False, False, True]
              [False, False, False, False] mid_state = (True, s3)
          \<and> dealerIndex s3 = 3 \<and> kyokuIndex s3 = 7 \<and> honba s3 = 3)"
proof -
  have h1: "0 \<le> dealerIndex mid_state" and h2: "0 \<le> kyokuIndex mid_state"
    by (simp_all add: mid_state_fields)
  note T1 = round_progression [OF h1 h2, where tsumoHan = "u16 ''3''" and han = 3
      and tsumoFu = "u16 ''40''" and fu = 40 and state = mid_state and rendered = no_text
      and winner = 3 and tsumoRiichi = "[False, False, False, False]"
      and ronW = 0 and ronL = 2 and ronHan = "u16 ''3''" and han' = 3
      and ronFu = "u16 ''40''" and fu' = 40 and ronRiichi = "[False, True, False, False]"
      and drawTenpai = "[True, False, False, False]"
      and drawRiichi = "[False, False, False, False]"
      and anyWinner = None and anyLoser = None and anyHan = "[]" and anyFu = "[]"
      and anyRiichi = "[]" and ?s4.0 = mid_state and ?s5.0 = mid_state]
  note T2 = round_progression [OF h1 h2, where tsumoHan = "u16 ''3''" and han = 3
      and tsumoFu = "u16 ''40''" and fu = 40 and state = mid_state and rendered = no_text
      and winner = 3 and tsumoRiichi = "[False, False, False, False]"
      and ronW = 0 and ronL = 2 and ronHan = "u16 ''3''" and han' = 3
      and ronFu = "u16 ''40''" and fu' = 40 and ronRiichi = "[False, True, False, False]"
      and drawTenpai = "[False, False, False, True]"
      and drawRiichi = "[False, False, False, False]"
      and anyWinner = None and anyLoser = None and anyHan = "[]" and anyFu = "[]"
      and anyRiichi = "[]" and ?s4.0 = mid_state and ?s5.0 = mid_state]
  from T1 parse_3 parse_40
  have a: "\<exists>s1. handleTsumoConfirm mid_state no_text (Some 3) (u16 ''3'') (u16 ''40'')
              [False, False, False, False] mid_state = (True, s1)
          \<and> win_progress mid_state 3 s1"
    and b: "\<exists>s2. handleRonConfirm mid_state no_text (Some 0) (Some 2) (u16 ''3'') (u16 ''40'')
              [False, True, False, False] mid_state = (True, s2)
          \<and> win_progress mid_state 0 s2"
    and c: "\<exists>s3. handleDrawConfirm mid_state no_text [True, False, False, False]
              [False, False, False, False] mid_state = (True, s3)
          \<and> draw_progress mid_state [True, False, False, False] s3"
    by simp_all
  from T2
  have d: "\<exists>s3. handleDrawConfirm mid_state no_text [False, False, False, True]
              [False, False, False, False] mid_state = (True, s3)
          \<and> draw_progress mid_state [False, False, False, True] s3"
    by simp
  from a have a': "\<exists>s1. handleTsumoConfirm mid_state no_text (Some 3) (u16 ''3'') (u16 ''40'')
              [False, False, False, False] mid_state = (True, s1)
          \<and> dealerIndex s1 = 3 \<and> kyokuIndex s1 = 7 \<and> honba s1 = 3"
    by (auto simp: win_progress_def mid_state_fields)
  from b have b': "\<exists>s2. handleRonConfirm mid_state no_text (Some 0) (Some 2) (u16 ''3'')
              (u16 ''40'') [False, True, False, False] mid_state = (True, s2)
          \<and> dealerIndex s2 = 0 \<and> kyokuIndex s2 = 0 \<and> honba s2 = 0"
    by (auto simp: win_progress_def mid_state_fields)
  from c have c': "\<exists>s3. handleDrawConfirm mid_state no_text [True, False, False, False]
              [False, False, False, False] mid_state = (True, s3)
          \<and> dealerIndex s3 = 0 \<and> kyokuIndex s3 = 0 \<and> honba s3 = 3"
    by (auto simp: draw_progress_def mid_state_fields lookup_def)
  from d have d': "\<exists>s3. handleDrawConfirm mid_state no_text [False, False, False, True]
              [False, False, False, False] mid_state = (True, s3)
          \<and> dealerIndex s3 = 3 \<and> kyokuIndex s3 = 7 \<and> honba s3 = 3"
    by (auto simp: draw_progress_def mid_state_fields lookup_def)
  from h1 h2 parse_3 parse_40 a' b' c' d' show ?thesis by blast
qed

text \<open>
  C7. For each kind of settlement, on the same state and the same inputs: the preview is
  absent exactly when the handler returns false (and then the state is unchanged), and
  otherwise the handler returns true, the new points are the old points plus the deltas
  of the preview, the new pool is the pool-after of the preview, and the history entry
  records the same deltas. The draw preview is never absent and its handler accepts.
\<close>

theorem preview_matches_confirm:
  "(case computeTsumoPreview prev tsumoWinner tsumoHan tsumoFu tsumoRiichi of
      None \<Rightarrow> handleTsumoConfirm state rendered tsumoWinner tsumoHan tsumoFu tsumoRiichi prev
               = (False, prev)
    | Some p \<Rightarrow> applied p prev
               (handleTsumoConfirm state rendered tsumoWinner tsumoHan tsumoFu tsumoRiichi prev))
   \<and> (case computeRonPreview prev ronWinner ronLoser ronHan ronFu ronRiichi of
      None \<Rightarrow> handleRonConfirm state rendered ronWinner ronLoser ronHan ronFu ronRiichi prev
               = (False, prev)
    | Some p \<Rightarrow> applied p prev
               (handleRonConfirm state rendered ronWinner ronLoser ronHan ronFu ronRiichi prev))
   \<and> applied (computeDrawPreview prev drawTenpai drawRiichi) prev
        (handleDrawConfirm state rendered drawTenpai drawRiichi prev)"
proof -
  have t: "case computeTsumoPreview prev tsumoWinner tsumoHan tsumoFu tsumoRiichi of
      None \<Rightarrow> handleTsumoConfirm state rendered tsumoWinner tsumoHan tsumoFu tsumoRiichi prev
               = (False, prev)
    | Some p \<Rightarrow> applied p prev
               (handleTsumoConfirm state rendered tsumoWinner tsumoHan tsumoFu tsumoRiichi prev)"
  proof (cases "computeTsumoPreview prev tsumoWinner tsumoHan tsumoFu tsumoRiichi")
    case None
    with tsumo_None [OF None, of state rendered] show ?thesis by simp
  next
    case (Some p)
    then obtain winner where w: "tsumoWinner = Some winner"
      using tsumo_accept_parse by blast
    from tsumo_Some [OF Some [unfolded w], of state rendered] Some w
    show ?thesis by (auto simp: applied_def)
  qed
  have r: "case computeRonPreview prev ronWinner ronLoser ronHan ronFu ronRiichi of
      None \<Rightarrow> handleRonConfirm state rendered ronWinner ronLoser ronHan ronFu ronRiichi prev
               = (False, prev)
    | Some p \<Rightarrow> applied p prev
               (handleRonConfirm state rendered ronWinner ronLoser ronHan ronFu ronRiichi prev)"
  proof (cases "computeRonPreview prev ronWinner ronLoser ronHan ronFu ronRiichi")
    case None
    with ron_None [OF None, of state rendered] show ?thesis by simp
  next
    case (Some p)
    then obtain winner loser where w: "ronWinner = Some winner" "ronLoser = Some loser"
      using ron_accept_parse by blast
    from ron_Some [OF Some [unfolded w], of state rendered] Some w
    show ?thesis by (auto simp: applied_def)
  qed
  have d: "applied (computeDrawPreview prev drawTenpai drawRiichi) prev
        (handleDrawConfirm state rendered drawTenpai drawRiichi prev)"
    using draw_Some [of state rendered drawTenpai drawRiichi prev]
    by (auto simp: applied_def)
  from t r d show ?thesis by blast
qed

theorem preview_matches_confirm_witness:
  "computeTsumoPreview createInitialGameState (Some 0) (u16 ''3'') (u16 ''40'')
      [False, False, False, False] \<noteq> None
   \<and> fst (handleTsumoConfirm createInitialGameState no_text (Some 0) (u16 ''3'') (u16 ''40'')
            [False, False, False, False] createInitialGameState)
   \<and> points (snd (handleTsumoConfirm createInitialGameState no_text (Some 0) (u16 ''3'')
            (u16 ''40'') [False, False, False, False] createInitialGameState))
        = [32800, 22400, 22400, 22400]
   \<and> kyotaku (snd (handleTsumoConfirm createInitialGameState no_text (Some 0) (u16 ''3'')
            (u16 ''40'') [False, False, False, False] createInitialGameState)) = 0
   \<and> handleTsumoConfirm createInitialGameState no_text None (u16 ''3'') (u16 ''40'')
        [False, False, False, False] createInitialGameState = (False, createInitialGameState)"
proof -
  let ?H = "handleTsumoConfirm createInitialGameState no_text (Some 0) (u16 ''3'') (u16 ''40'')
              [False, False, False, False] createInitialGameState"
  have pts: "points createInitialGameState = [25000, 25000, 25000, 25000]"
    and d: "dealerIndex createInitialGameState = 0" "honba createInitialGameState = 0"
      "kyotaku createInitialGameState = 0"
    by (simp_all add: createInitialGameState_def)
  have hf: "parseHanFu (u16 ''3'') (u16 ''40'') = Some (3, 40)"
    by (rule parseHanFu_Some [OF parse_3 _ parse_40]) simp_all
  have s: "(0::int) \<in> set seats" by (simp add: seats_def)
  note P = tsumo_closed [OF pts s hf, of False False False False]
  have N: "computeTsumoPreview createInitialGameState None (u16 ''3'') (u16 ''40'')
             [False, False, False, False] = None"
    by (simp add: computeTsumoPreview_def)
  from preview_matches_confirm [where prev = createInitialGameState
      and tsumoWinner = "Some 0" and tsumoHan = "u16 ''3''" and tsumoFu = "u16 ''40''"
      and tsumoRiichi = "[False, False, False, False]" and state = createInitialGameState
      and rendered = no_text and ronWinner = None and ronLoser = None and ronHan = "[]"
      and ronFu = "[]" and ronRiichi = "[]" and drawTenpai = "[]" and drawRiichi = "[]"] P
  have A: "fst ?H \<and> points (snd ?H) = [32800, 22400, 22400, 22400] \<and> kyotaku (snd ?H) = 0"
    by (simp add: applied_def pts d applyDeltas4 tsumo_delta_def tsumo_payment_def
        seats_def riichi_deduction_def riichi_declarers_def lookup_def calcBasePoints_def
        roundUpToHundred_def)
  from preview_matches_confirm [where prev = createInitialGameState
      and tsumoWinner = None and tsumoHan = "u16 ''3''" and tsumoFu = "u16 ''40''"
      and tsumoRiichi = "[False, False, False, False]" and state = createInitialGameState
      and rendered = no_text and ronWinner = None and ronLoser = None and ronHan = "[]"
      and ronFu = "[]" and ronRiichi = "[]" and drawTenpai = "[]" and drawRiichi = "[]"] N
  have B: "handleTsumoConfirm createInitialGameState no_text None (u16 ''3'') (u16 ''40'')
        [False, False, False, False] createInitialGameState = (False, createInitialGameState)"
    by simp
  from A B P show ?thesis by simp
qed



text \<open>
  C9. The self-draw handler returns false and leaves the state as it is when no winner
  is selected or han or fu does not parse to a positive finite integer; the discard-win
  handler does so when the winner or the loser is not selected, when they are the same
  seat, or when han or fu is invalid. A value is invalid exactly when it is not a
  finite number above 0.
\<close>

theorem invalid_input_rejected:
  "(tsumoWinner = None
      \<or> positive_finite (parseInt10 (or_zero tsumoHan)) = None
      \<or> positive_finite (parseInt10 (or_zero tsumoFu)) = None
    \<longrightarrow> handleTsumoConfirm state rendered tsumoWinner tsumoHan tsumoFu tsumoRiichi prev
          = (False, prev))
   \<and> (ronWinner = None \<or> ronLoser = None \<or> ronWinner = ronLoser
      \<or> positive_finite (parseInt10 (or_zero ronHan)) = None
      \<or> positive_finite (parseInt10 (or_zero ronFu)) = None
    \<longrightarrow> handleRonConfirm state rendered ronWinner ronLoser ronHan ronFu ronRiichi prev
          = (False, prev))
   \<and> (positive_finite x = None \<longleftrightarrow> (\<forall>n. x = Num n \<longrightarrow> n \<le> 0))"
proof -
  have t: "handleTsumoConfirm state rendered tsumoWinner tsumoHan tsumoFu tsumoRiichi prev
          = (False, prev)"
    if "tsumoWinner = None
      \<or> positive_finite (parseInt10 (or_zero tsumoHan)) = None
      \<or> positive_finite (parseInt10 (or_zero tsumoFu)) = None"
    using that unfolding handleTsumoConfirm_def
    by (auto simp: parseHanFu_def split: option.splits)
  have r: "handleRonConfirm state rendered ronWinner ronLoser ronHan ronFu ronRiichi prev
          = (False, prev)"
    if "ronWinner = None \<or> ronLoser = None \<or> ronWinner = ronLoser
      \<or> positive_finite (parseInt10 (or_zero ronHan)) = None
      \<or> positive_finite (parseInt10 (or_zero ronFu)) = None"
    using that unfolding handleRonConfirm_def
    by (auto simp: parseHanFu_def split: option.splits)
  have p: "positive_finite x = None \<longleftrightarrow> (\<forall>n. x = Num n \<longrightarrow> n \<le> 0)"
    by (cases x) (auto simp: positive_finite_def)
  from t r p show ?thesis by blast
qed

theorem invalid_input_rejected_witness:
  "positive_finite (parseInt10 (or_zero [])) = None
   \<and> handleTsumoConfirm createInitialGameState no_text (Some 0) [] (u16 ''40'')
        [False, False, False, False] createInitialGameState
      = (False, createInitialGameState)
   \<and> handleRonConfirm createInitialGameState no_text (Some 1) (Some 1) (u16 ''3'') (u16 ''40'')
        [False, False, False, False] createInitialGameState
      = (False, createInitialGameState)"
proof -
  have z: "positive_finite (parseInt10 (or_zero [])) = None"
    by (simp add: parseInt10_def or_zero_def u16_def is_ws_def is_digit_def digits_value_def
        DOUBLE_OVERFLOW_def positive_finite_def Let_def)
  from invalid_input_rejected [of "Some 0" "[]" "u16 ''40''" createInitialGameState no_text
      "[False, False, False, False]" createInitialGameState "Some 1" "Some 1" "u16 ''3''"
      "u16 ''40''" "[False, False, False, False]"] z
  show ?thesis by simp
qed

text \<open>
  C10, as amended. On load, a stored document is installed exactly when it is an object
  whose \<^verbatim>\<open>points\<close> is an array of four elements (of any type) and whose
  \<^verbatim>\<open>honba\<close>, \<^verbatim>\<open>kyokuIndex\<close> and \<^verbatim>\<open>dealerIndex\<close> are numbers. For an installed
  document with a dealer index \<open>d \<ge> 0\<close> the dealer is \<open>d mod 4\<close>, a seat; a
  \<^verbatim>\<open>kyotaku\<close> that is missing or not a number becomes 0; a \<^verbatim>\<open>history\<close> that is
  missing or not an array becomes the empty list; the names are four, each the stored
  name trimmed, or the positional label when the stored name is empty, not a string or
  not stored; an undo field that is missing or \<^verbatim>\<open>null\<close> becomes \<^verbatim>\<open>null\<close> (the flag
  \<^verbatim>\<open>false\<close>), and any other stored value is kept. With no stored item, an item that
  does not parse or a document that is not accepted, nothing is installed and the state
  in memory stays.
\<close>

theorem load_validates:
  "((\<exists>st'. loadState raw = Some st') \<longleftrightarrow>
      (\<exists>doc xs h k d. raw = Parsed doc \<and> truthy doc
          \<and> get doc ''points'' = Some (JArr xs) \<and> length xs = 4
          \<and> get doc ''honba'' = Some (JNum h)
          \<and> get doc ''kyokuIndex'' = Some (JNum k)
          \<and> get doc ''dealerIndex'' = Some (JNum d)))
   \<and> (loadState (Parsed parsed) = Some st \<longrightarrow>
        get parsed ''points'' = Some (JArr (loaded_points st))
        \<and> get parsed ''honba'' = Some (JNum (loaded_honba st))
        \<and> get parsed ''kyokuIndex'' = Some (JNum (loaded_kyokuIndex st))
        \<and> (0 \<le> number_of (get parsed ''dealerIndex'') \<longrightarrow>
              loaded_dealerIndex st = number_of (get parsed ''dealerIndex'') mod 4
              \<and> loaded_dealerIndex st \<in> set seats)
        \<and> (if is_number (get parsed ''kyotaku'')
            then get parsed ''kyotaku'' = Some (JNum (loaded_kyotaku st))
            else loaded_kyotaku st = 0)
        \<and> (if \<exists>es. get parsed ''history'' = Some (JArr es)
            then get parsed ''history'' = Some (JArr (loaded_history st))
            else loaded_history st = [])
        \<and> length (loaded_names st) = 4
        \<and> (\<forall>i<4. loaded_names st ! i = sanitized_name (get parsed ''names'') i)
        \<and> (if nullish (get parsed ''lastSettlementBefore'')
            then loaded_lastSettlementBefore st = JNull
            else get parsed ''lastSettlementBefore'' = Some (loaded_lastSettlementBefore st))
        \<and> (if nullish (get parsed ''lastSettlementAfter'')
            then loaded_lastSettlementAfter st = JNull
            else get parsed ''lastSettlementAfter'' = Some (loaded_lastSettlementAfter st))
        \<and> (if nullish (get parsed ''lastSettlementMeta'')
            then loaded_lastSettlementMeta st = JNull
            else get parsed ''lastSettlementMeta'' = Some (loaded_lastSettlementMeta st))
        \<and> (if nullish (get parsed ''isInUndo'')
            then loaded_isInUndo st = JBool False
            else get parsed ''isInUndo'' = Some (loaded_isInUndo st)))
   \<and> loadState NoItem = None \<and> loadState Unparsable = None"
proof -
  have acc: "accepts doc \<longleftrightarrow>
      (\<exists>xs h k d. truthy doc
          \<and> get doc ''points'' = Some (JArr xs) \<and> length xs = 4
          \<and> get doc ''honba'' = Some (JNum h)
          \<and> get doc ''kyokuIndex'' = Some (JNum k)
          \<and> get doc ''dealerIndex'' = Some (JNum d))" for doc
    by (auto simp: accepts_def is_number_def split: option.splits json.splits)
  have A: "(\<exists>st'. loadState raw = Some st') \<longleftrightarrow>
      (\<exists>doc xs h k d. raw = Parsed doc \<and> truthy doc
          \<and> get doc ''points'' = Some (JArr xs) \<and> length xs = 4
          \<and> get doc ''honba'' = Some (JNum h)
          \<and> get doc ''kyokuIndex'' = Some (JNum k)
          \<and> get doc ''dealerIndex'' = Some (JNum d))"
    by (cases raw) (auto simp: loadState_def acc)
  have B: "get parsed ''points'' = Some (JArr (loaded_points st))
        \<and> get parsed ''honba'' = Some (JNum (loaded_honba st))
        \<and> get parsed ''kyokuIndex'' = Some (JNum (loaded_kyokuIndex st))
        \<and> (0 \<le> number_of (get parsed ''dealerIndex'') \<longrightarrow>
              loaded_dealerIndex st = number_of (get parsed ''dealerIndex'') mod 4
              \<and> loaded_dealerIndex st \<in> set seats)
        \<and> (if is_number (get parsed ''kyotaku'')
            then get parsed ''kyotaku'' = Some (JNum (loaded_kyotaku st))
            else loaded_kyotaku st = 0)
        \<and> (if \<exists>es. get parsed ''history'' = Some (JArr es)
            then get parsed ''history'' = Some (JArr (loaded_history st))
            else loaded_history st = [])
        \<and> length (loaded_names st) = 4
        \<and> (\<forall>i<4. loaded_names st ! i = sanitized_name (get parsed ''names'') i)
        \<and> (if nullish (get parsed ''lastSettlementBefore'')
            then loaded_lastSettlementBefore st = JNull
            else get parsed ''lastSettlementBefore'' = Some (loaded_lastSettlementBefore st))
        \<and> (if nullish (get parsed ''lastSettlementAfter'')
            then loaded_lastSettlementAfter st = JNull
            else get parsed ''lastSettlementAfter'' = Some (loaded_lastSettlementAfter st))
        \<and> (if nullish (get parsed ''lastSettlementMeta'')
            then loaded_lastSettlementMeta st = JNull
            else get parsed ''lastSettlementMeta'' = Some (loaded_lastSettlementMeta st))
        \<and> (if nullish (get parsed ''isInUndo'')
            then loaded_isInUndo st = JBool False
            else get parsed ''isInUndo'' = Some (loaded_isInUndo st))"
    if L: "loadState (Parsed parsed) = Some st"
  proof -
    from L have a: "accepts parsed" and st: "st = baseState parsed"
      by (auto simp: loadState_def split: if_splits)
    from a obtain xs h k d where f: "get parsed ''points'' = Some (JArr xs)"
      "get parsed ''honba'' = Some (JNum h)" "get parsed ''kyokuIndex'' = Some (JNum k)"
      "get parsed ''dealerIndex'' = Some (JNum d)"
      using acc by blast
    have nd: "\<And>v. or_default v JNull = (if nullish v then JNull else the v)"
      "\<And>v. or_default v (JBool False) = (if nullish v then JBool False else the v)"
      by (auto simp: or_default_def nullish_def split: option.splits json.splits)
    have nn: "\<And>v. \<not> nullish v \<Longrightarrow> v = Some (the v)"
      by (auto simp: nullish_def)
    have 1: "get parsed ''points'' = Some (JArr (loaded_points st))"
      "get parsed ''honba'' = Some (JNum (loaded_honba st))"
      "get parsed ''kyokuIndex'' = Some (JNum (loaded_kyokuIndex st))"
      by (simp_all add: st baseState_def f number_of_def)
    have 2: "0 \<le> number_of (get parsed ''dealerIndex'') \<longrightarrow>
              loaded_dealerIndex st = number_of (get parsed ''dealerIndex'') mod 4
              \<and> loaded_dealerIndex st \<in> set seats"
      using ensureSeatIndex_seat [of "number_of (get parsed ''dealerIndex'')"]
      by (auto simp: st baseState_def)
    have 3: "if is_number (get parsed ''kyotaku'')
            then get parsed ''kyotaku'' = Some (JNum (loaded_kyotaku st))
            else loaded_kyotaku st = 0"
      by (auto simp: st baseState_def is_number_def number_of_def split: option.splits json.splits)
    have 4: "if \<exists>es. get parsed ''history'' = Some (JArr es)
            then get parsed ''history'' = Some (JArr (loaded_history st))
            else loaded_history st = []"
      by (auto simp: st baseState_def split: option.splits json.splits)
    have 5: "length (loaded_names st) = 4"
      "\<forall>i<4. loaded_names st ! i = sanitized_name (get parsed ''names'') i"
      by (simp_all add: st baseState_def sanitizeNames_length sanitizeNames_nth)
    have 6: "if nullish (get parsed ''lastSettlementBefore'')
            then loaded_lastSettlementBefore st = JNull
            else get parsed ''lastSettlementBefore'' = Some (loaded_lastSettlementBefore st)"
      "if nullish (get parsed ''lastSettlementAfter'')
            then loaded_lastSettlementAfter st = JNull
            else get parsed ''lastSettlementAfter'' = Some (loaded_lastSettlementAfter st)"
      "if nullish (get parsed ''lastSettlementMeta'')
            then loaded_lastSettlementMeta st = JNull
            else get parsed ''lastSettlementMeta'' = Some (loaded_lastSettlementMeta st)"
      "if nullish (get parsed ''isInUndo'')
            then loaded_isInUndo st = JBool False
            else get parsed ''isInUndo'' = Some (loaded_isInUndo st)"
      using nn by (simp_all add: st baseState_def nd)
    from 1 2 3 4 5 6 show ?thesis by blast
  qed
  have C: "loadState NoItem = None \<and> loadState Unparsable = None"
    by (simp add: loadState_def)
  from A B C show ?thesis by blast
qed


theorem load_validates_witness:
  "loadState (Parsed plain_document) = Some plain_loaded
   \<and> 0 \<le> number_of (get plain_document ''dealerIndex'')
   \<and> loaded_dealerIndex plain_loaded = 6 mod 4
   \<and> loaded_dealerIndex plain_loaded \<in> set seats
   \<and> loaded_kyotaku plain_loaded = 0
   \<and> loaded_names plain_loaded ! 0 = u16 ''Aki''
   \<and> loaded_names plain_loaded ! 1 = PLAYER_LABELS ! 1"
proof -
  have d: "number_of (get plain_document ''dealerIndex'') = 6"
    and k: "\<not> is_number (get plain_document ''kyotaku'')"
    by (simp_all add: plain_document_def is_number_def number_of_def)
  have n: "sanitized_name (get plain_document ''names'') 0 = u16 ''Aki''"
    "sanitized_name (get plain_document ''names'') 1 = PLAYER_LABELS ! 1"
    by (simp_all add: sanitized_name_def plain_document_def trim_def is_ws_def u16_def)
  note T = load_validates [of "Parsed plain_document" plain_document plain_loaded]
  from T load_plain
  have a: "0 \<le> number_of (get plain_document ''dealerIndex'') \<longrightarrow>
      loaded_dealerIndex plain_loaded = number_of (get plain_document ''dealerIndex'') mod 4
      \<and> loaded_dealerIndex plain_loaded \<in> set seats"
    by blast
  from T load_plain
  have b: "if is_number (get plain_document ''kyotaku'')
      then get plain_document ''kyotaku'' = Some (JNum (loaded_kyotaku plain_loaded))
      else loaded_kyotaku plain_loaded = 0"
    by blast
  from T load_plain
  have c: "\<forall>i<4. loaded_names plain_loaded ! i = sanitized_name (get plain_document ''names'') i"
    by blast
  from c have c0: "loaded_names plain_loaded ! 0 = sanitized_name (get plain_document ''names'') 0"
    and c1: "loaded_names plain_loaded ! 1 = sanitized_name (get plain_document ''names'') 1"
    by simp_all
  from a b c0 c1 d k n load_plain show ?thesis by (simp add: seats_def)
qed

text \<open>
  C10 as stated does not hold: a document whose \<^verbatim>\<open>points\<close> holds a string,
  \<^verbatim>\<open>null\<close>, a boolean and an array is installed, and its undo fields, a number and
  a string, are kept as they are.
\<close>

theorem load_counterexample:
  "loadState (Parsed odd_document) = Some odd_loaded
   \<and> \<not> numeric_array4 (get odd_document ''points'')
   \<and> get odd_document ''isInUndo'' = Some (JStr (u16 ''yes''))
   \<and> loaded_isInUndo odd_loaded \<noteq> JBool False
   \<and> get odd_document ''lastSettlementBefore'' = Some (JNum 5)
   \<and> loaded_lastSettlementBefore odd_loaded \<noteq> JNull"
  using load_odd
  by (simp add: numeric_array4_def odd_document_def is_number_def odd_loaded_def)


end
